theory Spec2Isabelle
  imports Complex_Main
begin

section \<open>Values, tensors and errors\<close>

text \<open>
  The optimizers of \<^verbatim>\<open>chop/stochastic.py\<close> work on torch tensors of Python floats.
  Floats are modelled as reals, without rounding. A tensor is the list of its entries:
  parameters, gradients and the points handed to the oracles are tensors with one axis,
  and the arithmetic of the source is elementwise. Tensors with several axes and
  broadcasting are outside the model.

  Exceptions are values of \<open>py_error\<close>. \<open>NonFinite\<close> is not an exception of Python: it
  marks the place where torch divides by zero and goes on, without raising, with entries
  that are NaN. No real number stands for such an entry, so an update that reaches this
  place ends there with \<open>NonFinite\<close>, and what it returns is the parameter as it was
  written up to that place. In the code the values computed after it (the candidate, the
  certificate, the parameter) are NaN.
\<close>

type_synonym tensor = "real list"

datatype py_error =
  ValueError | TypeError | RuntimeError | ZeroDivisionError | IndexError | KeyError
  | UnboundLocalError | NonFinite

definition t_add :: "tensor \<Rightarrow> tensor \<Rightarrow> tensor" where
  "t_add x y = map2 (+) x y"

definition t_sub :: "tensor \<Rightarrow> tensor \<Rightarrow> tensor" where
  "t_sub x y = map2 (-) x y"

definition t_mul :: "tensor \<Rightarrow> tensor \<Rightarrow> tensor" where
  "t_mul x y = map2 (*) x y"

definition t_scale :: "real \<Rightarrow> tensor \<Rightarrow> tensor" where
  "t_scale a x = map (\<lambda>v. a * v) x"

definition t_div :: "tensor \<Rightarrow> real \<Rightarrow> tensor" where
  "t_div x a = map (\<lambda>v. v / a) x"

definition t_neg :: "tensor \<Rightarrow> tensor" where
  "t_neg x = map uminus x"

definition t_sum :: "tensor \<Rightarrow> real" where
  "t_sum x = sum_list x"

text \<open>\<^verbatim>\<open>torch.norm\<close>: the Euclidean norm of the entries.\<close>

definition t_norm :: "tensor \<Rightarrow> real" where
  "t_norm x = sqrt (sum_list (map (\<lambda>v. v * v) x))"

definition zeros_like :: "tensor \<Rightarrow> tensor" where
  "zeros_like x = map (\<lambda>_. 0) x"

section \<open>The backtracking line search\<close>

text \<open>\<^verbatim>\<open>EPS = np.finfo(np.float32).eps\<close>, which is \<open>2\<^sup>-\<^sup>2\<^sup>3\<close>.\<close>

definition EPS :: real where
  "EPS = 1 / 2 ^ 23"

text \<open>
  One pass through the body of the \<^verbatim>\<open>for\<close> loop of \<^verbatim>\<open>backtracking_step_size\<close>, at the
  Lipschitz estimate \<open>lipschitz_t\<close>: the trial step size, the oracle's value and gradient
  at the trial point, and whether the sufficient-decrease test holds. The arguments are
  Python floats, so a zero divisor raises.
\<close>

definition ls_trial ::
  "tensor \<Rightarrow> real \<Rightarrow> (tensor \<Rightarrow> real \<times> tensor) \<Rightarrow> real \<Rightarrow> real \<Rightarrow> tensor \<Rightarrow> real \<Rightarrow> real
    \<Rightarrow> py_error + (real \<times> real \<times> tensor \<times> bool)" where
  "ls_trial x f_t f_grad certificate max_step_size update_direction norm_update_direction
      lipschitz_t =
    (if norm_update_direction * lipschitz_t = 0 then Inl ZeroDivisionError
     else
       let s0 = certificate / (norm_update_direction * lipschitz_t);
           (step_size_t, rhs) =
             (if s0 < max_step_size then (s0, - 0.5 * s0 * certificate)
              else (max_step_size,
                    - max_step_size * certificate
                    + 0.5 * (max_step_size ^ 2) * lipschitz_t * norm_update_direction));
           (f_next, grad_next) = f_grad (t_add x (t_scale step_size_t update_direction))
       in Inr (step_size_t, f_next, grad_next, f_next - f_t \<le> rhs + EPS))"

text \<open>
  The \<^verbatim>\<open>for _ in range(max_ls_iter)\<close> loop with its \<^verbatim>\<open>else\<close> clause. \<open>n\<close> counts the
  trials left and \<open>prev\<close> holds the loop variables of the previous trial. The result is
  \<open>(step_size_t, lipschitz_t, f_next, grad_next, warned)\<close>, where \<open>warned\<close> records the
  \<^verbatim>\<open>warnings.warn\<close> of the \<^verbatim>\<open>else\<close> clause. With no trial at all the \<^verbatim>\<open>return\<close> would
  read unbound variables.
\<close>

fun ls_loop ::
  "nat \<Rightarrow> (real \<Rightarrow> py_error + (real \<times> real \<times> tensor \<times> bool)) \<Rightarrow> real
    \<Rightarrow> (real \<times> real \<times> tensor) option
    \<Rightarrow> py_error + (real \<times> real \<times> real \<times> tensor \<times> bool)" where
  "ls_loop 0 trial lipschitz_t prev =
    (case prev of
       None \<Rightarrow> Inl UnboundLocalError
     | Some (step_size_t, f_next, grad_next) \<Rightarrow>
         Inr (step_size_t, lipschitz_t, f_next, grad_next, True))"
| "ls_loop (Suc n) trial lipschitz_t prev =
    (case trial lipschitz_t of
       Inl e \<Rightarrow> Inl e
     | Inr (step_size_t, f_next, grad_next, ok) \<Rightarrow>
         if ok then Inr (step_size_t, lipschitz_t, f_next, grad_next, False)
         else ls_loop n trial (lipschitz_t * 2) (Some (step_size_t, f_next, grad_next)))"

definition max_ls_iter :: nat where
  "max_ls_iter = 100"

text \<open>
  The tightening of the estimate when a previous objective value is known
  (\<^verbatim>\<open>if old_f_t is not None\<close>).
\<close>

definition ls_tighten :: "real \<Rightarrow> real option \<Rightarrow> real \<Rightarrow> real \<Rightarrow> real \<Rightarrow> py_error + real" where
  "ls_tighten f_t old_f_t certificate lipschitz_t norm_update_direction =
    (case old_f_t of
       None \<Rightarrow> Inr lipschitz_t
     | Some old \<Rightarrow>
         if 2 * (old - f_t) * norm_update_direction = 0 then Inl ZeroDivisionError
         else
           let tmp = (certificate ^ 2) / (2 * (old - f_t) * norm_update_direction)
           in Inr (max (min tmp lipschitz_t) (lipschitz_t * 0.9)))"

definition backtracking_step_size ::
  "tensor \<Rightarrow> real \<Rightarrow> real option \<Rightarrow> (tensor \<Rightarrow> real \<times> tensor) \<Rightarrow> real \<Rightarrow> real \<Rightarrow> real
    \<Rightarrow> tensor \<Rightarrow> real \<Rightarrow> py_error + (real \<times> real \<times> real \<times> tensor \<times> bool)" where
  "backtracking_step_size x f_t old_f_t f_grad certificate lipschitz_t max_step_size
      update_direction norm_update_direction =
    (case ls_tighten f_t old_f_t certificate lipschitz_t norm_update_direction of
       Inl e \<Rightarrow> Inl e
     | Inr l \<Rightarrow>
         ls_loop max_ls_iter
           (ls_trial x f_t f_grad certificate max_step_size update_direction
              norm_update_direction)
           l None)"

text \<open>The objective \<open>f(x) = 0.5 x\<^sup>2\<close> with its gradient, as a value-and-gradient oracle.\<close>

definition half_square :: "tensor \<Rightarrow> real \<times> tensor" where
  "half_square x = (0.5 * sum_list (map (\<lambda>v. v * v) x), x)"


section \<open>Python values, gradients and parameters\<close>

text \<open>
  The constructors test the run-time type of \<^verbatim>\<open>lr\<close> and \<^verbatim>\<open>momentum\<close>
  (\<^verbatim>\<open>type(lr) == float\<close>, \<^verbatim>\<open>lr == 'sublinear'\<close>, \<^verbatim>\<open>momentum is None\<close>), so these arguments
  are Python values.
\<close>

datatype pyval = PyNone | PyFloat real | PyInt int | PyStr string

fun is_float :: "pyval \<Rightarrow> bool" where
  "is_float (PyFloat _) = True"
| "is_float _ = False"

text \<open>The number a Python value stands for in float arithmetic; \<^verbatim>\<open>None\<close> and strings raise.\<close>

fun py_num :: "pyval \<Rightarrow> py_error + real" where
  "py_num (PyFloat r) = Inr r"
| "py_num (PyInt i) = Inr (real_of_int i)"
| "py_num _ = Inl TypeError"

text \<open>\<^verbatim>\<open>xs[i]\<close> on a Python list, for an index that is never negative.\<close>

definition py_index :: "'a list \<Rightarrow> nat \<Rightarrow> py_error + 'a" where
  "py_index xs i = (if i < length xs then Inr (xs ! i) else Inl IndexError)"

text \<open>
  \<^verbatim>\<open>p.grad\<close> is \<^verbatim>\<open>None\<close>, a dense tensor or a sparse tensor. Every optimizer raises
  on a sparse gradient before it changes anything, so a sparse gradient carries no entries.
  A parameter is its tensor, its gradient, and the optimizer's \<^verbatim>\<open>self.state[p]\<close>, where
  \<open>None\<close> is the empty dictionary (\<^verbatim>\<open>len(state) == 0\<close>).
\<close>

datatype grad = Dense tensor | Sparse

record 's param =
  p_data :: tensor
  p_grad :: "grad option"
  p_state :: "'s option"

text \<open>
  The loop \<^verbatim>\<open>for groups in self.param_groups: for p in groups['params']\<close> that every
  \<^verbatim>\<open>step\<close> runs, over the parameters in registration order. \<open>body\<close> is the text of the
  loop after \<^verbatim>\<open>if p.grad is None: continue\<close>; it receives and returns the local variables
  of \<^verbatim>\<open>step\<close> (\<^verbatim>\<open>idx\<close>, which it advances at its end), and the parameter with its state. An
  exception leaves the loop: the parameters updated so far stay updated, and so does what
  the failing update had already written.
\<close>

fun params_loop ::
  "('l \<Rightarrow> grad \<Rightarrow> 's param \<Rightarrow> py_error option \<times> 'l \<times> 's param) \<Rightarrow> 'l \<Rightarrow> 's param list
    \<Rightarrow> py_error option \<times> 's param list" where
  "params_loop body l [] = (None, [])"
| "params_loop body l (p # ps) =
    (case p_grad p of
       None \<Rightarrow> (case params_loop body l ps of (e, ps') \<Rightarrow> (e, p # ps'))
     | Some g \<Rightarrow>
         (case body l g p of
            (Some e, l', p') \<Rightarrow> (Some e, p' # ps)
          | (None, l', p') \<Rightarrow>
              (case params_loop body l' ps of (e, ps') \<Rightarrow> (e, p' # ps'))))"

text \<open>
  \<^verbatim>\<open>loss = closure()\<close> when a closure is given: the closure reevaluates the model, which
  returns the loss and leaves new gradients on the parameters.
\<close>

definition run_closure ::
  "('s param list \<Rightarrow> real \<times> 's param list) option \<Rightarrow> 's param list
    \<Rightarrow> real option \<times> 's param list" where
  "run_closure closure ps =
    (case closure of
       None \<Rightarrow> (None, ps)
     | Some c \<Rightarrow> (case c ps of (loss, ps') \<Rightarrow> (Some loss, ps')))"

section \<open>Gradient normalization\<close>

text \<open>\<^verbatim>\<open>abs(grad).max()\<close>, for a tensor with at least one entry.\<close>

definition t_absmax :: "tensor \<Rightarrow> real" where
  "t_absmax x = fold max (map abs x) 0"

definition normalize_gradient :: "tensor \<Rightarrow> string \<Rightarrow> tensor" where
  "normalize_gradient grad normalization =
    (if normalization = ''none'' then grad
     else if normalization = ''Linf'' then t_div grad (t_absmax grad)
     else if normalization = ''sign'' then map sgn grad
     else if normalization = ''L2'' then t_div grad (t_norm grad)
     else grad)"

text \<open>
  On an all-zero gradient \<^verbatim>\<open>'Linf'\<close> and \<^verbatim>\<open>'L2'\<close> divide zero by zero and torch answers
  with NaN entries, where the quotient of \<open>normalize_gradient\<close> is a list of zeros.
  \<open>normalize_defined\<close> is the condition under which \<open>normalize_gradient\<close> is what torch
  computes. The two callers, \<^verbatim>\<open>PGD.step\<close> and \<^verbatim>\<open>S3CM.step\<close>, test it before they use the
  normalized gradient, and end with \<open>NonFinite\<close> when it fails.
\<close>

definition normalize_defined :: "tensor \<Rightarrow> string \<Rightarrow> bool" where
  "normalize_defined grad normalization =
    (if normalization = ''Linf'' then t_absmax grad \<noteq> 0
     else if normalization = ''L2'' then t_norm grad \<noteq> 0
     else True)"

section \<open>Constraint oracles and their wrappers\<close>

text \<open>
  A prox oracle is called as \<^verbatim>\<open>prox(x, step_size)\<close> or as \<^verbatim>\<open>prox(x)\<close> on a batch of points;
  the step size is \<open>None\<close> when the call gives none. An LMO is called as \<^verbatim>\<open>lmo(u, x)\<close> on
  batches and returns the update direction and the maximal step size. The wrappers built
  by the constructors add the batch axis with \<^verbatim>\<open>unsqueeze(0)\<close> and remove it again with
  \<^verbatim>\<open>squeeze\<close>; a wrapper takes the point and an optional step size \<^verbatim>\<open>s=None\<close>.
\<close>

type_synonym prox_oracle = "tensor list \<Rightarrow> real option \<Rightarrow> tensor list"
type_synonym lmo_oracle = "tensor list \<Rightarrow> tensor list \<Rightarrow> tensor list \<times> real"
type_synonym prox_wrapper = "tensor \<Rightarrow> real option \<Rightarrow> py_error + tensor"
type_synonym lmo_wrapper = "tensor \<Rightarrow> tensor \<Rightarrow> tensor \<times> real"

definition unsqueeze0 :: "tensor \<Rightarrow> tensor list" where
  "unsqueeze0 x = [x]"

text \<open>
  \<^verbatim>\<open>squeeze\<close> of a batch of one point is that point. The prox wrappers of \<^verbatim>\<open>S3CM\<close> and
  all the LMO wrappers call \<^verbatim>\<open>.squeeze(dim=0)\<close>, which removes the batch axis and nothing
  else. The prox wrappers of \<^verbatim>\<open>PGD\<close> and \<^verbatim>\<open>PGDMadry\<close> call \<^verbatim>\<open>.squeeze()\<close>, which removes
  every axis of size one. On the batch of a tensor with one axis the two agree in value: a
  point with a single
  entry comes back without any axis, and \<^verbatim>\<open>p - new_p\<close> and \<^verbatim>\<open>p.copy_(new_p)\<close> broadcast it
  to the one entry of the parameter. For a parameter with several axes, one of them of size
  one, \<^verbatim>\<open>.squeeze()\<close> removes that axis as well and \<^verbatim>\<open>p.copy_\<close> can raise after the
  certificate is stored; such parameters are not tensors of this model.
\<close>

definition squeeze :: "tensor list \<Rightarrow> tensor" where
  "squeeze b = concat b"

text \<open>\<^verbatim>\<open>def prox_el(x, s=None): return x\<close>, the replacement for a missing oracle.\<close>

definition prox_identity :: prox_oracle where
  "prox_identity x s = x"

section \<open>PGD\<close>

text \<open>
  \<^verbatim>\<open>PGD.__init__\<close> builds \<^verbatim>\<open>self.prox\<close> in a loop over \<^verbatim>\<open>prox\<close>:
  \<^verbatim>\<open>self.prox.append(lambda x, s=None: prox_el(x.unsqueeze(0)).squeeze())\<close> for an oracle,
  \<^verbatim>\<open>self.prox.append(lambda x, s=None: x)\<close> for \<^verbatim>\<open>None\<close>. The lambda does not copy the loop
  variable \<^verbatim>\<open>prox_el\<close>: it reads the variable of \<^verbatim>\<open>__init__\<close> when it is called, and by then
  the loop has left the last element of \<^verbatim>\<open>prox\<close> in it. When that last element is \<^verbatim>\<open>None\<close>
  the call \<^verbatim>\<open>prox_el(...)\<close> raises \<^verbatim>\<open>TypeError\<close>. The oracle is called on the point only.
\<close>

definition PGD_wrap :: "prox_oracle option list \<Rightarrow> prox_wrapper list" where
  "PGD_wrap prox =
    map (\<lambda>el. case el of
            Some _ \<Rightarrow>
              (\<lambda>x s. case last prox of
                        Some prox_el \<Rightarrow> Inr (squeeze (prox_el (unsqueeze0 x) None))
                      | None \<Rightarrow> Inl TypeError)
          | None \<Rightarrow> (\<lambda>x s. Inr x))
      prox"

record momentum_state =
  step :: real
  grad_estimate :: tensor
  certificate :: "real option"

record pgd =
  pgd_prox :: "prox_wrapper list"
  pgd_lr :: pyval
  pgd_momentum :: pyval
  pgd_normalization :: string
  pgd_params :: "momentum_state param list"

definition PGD_POSSIBLE_NORMALIZATIONS :: "string list" where
  "PGD_POSSIBLE_NORMALIZATIONS = [''none'', ''L2'', ''Linf'', ''sign'']"

text \<open>A fresh parameter: its tensor and gradient, with no state yet.\<close>

definition register :: "tensor \<times> grad option \<Rightarrow> 's param" where
  "register tg = \<lparr>p_data = fst tg, p_grad = snd tg, p_state = None\<rparr>"

text \<open>
  \<^verbatim>\<open>PGD.__init__\<close>. The last check is the one of \<^verbatim>\<open>torch.optim.Optimizer.__init__\<close>, which
  refuses an empty parameter list.
\<close>

definition PGD_init ::
  "(tensor \<times> grad option) list \<Rightarrow> prox_oracle option list option \<Rightarrow> pyval \<Rightarrow> pyval \<Rightarrow> string
    \<Rightarrow> py_error + pgd" where
  "PGD_init params prox lr momentum normalization =
    (let prox = (case prox of None \<Rightarrow> replicate (length params) None | Some l \<Rightarrow> l);
         self_prox = PGD_wrap prox
     in if \<not> (is_float lr \<or> lr = PyStr ''sublinear'') then Inl ValueError
        else if (case momentum of PyFloat m \<Rightarrow> \<not> (0 \<le> m \<and> m \<le> 1) | _ \<Rightarrow> False)
          then Inl ValueError
        else if normalization \<notin> set PGD_POSSIBLE_NORMALIZATIONS then Inl ValueError
        else if params = [] then Inl ValueError
        else Inr \<lparr>pgd_prox = self_prox, pgd_lr = lr, pgd_momentum = momentum,
                  pgd_normalization = normalization, pgd_params = map register params\<rparr>)"

text \<open>
  \<^verbatim>\<open>if self.lr == 'sublinear': step_size = 1. / (state['step'] + 1.) else: step_size = self.lr\<close>,
  with the step size then used as a number.
\<close>

definition schedule_step_size :: "pyval \<Rightarrow> real \<Rightarrow> py_error + real" where
  "schedule_step_size lr step_count =
    (if lr = PyStr ''sublinear'' then Inr (1 / (step_count + 1)) else py_num lr)"

text \<open>
  \<^verbatim>\<open>state = self.state[p]\<close> followed by the initialization under \<^verbatim>\<open>if len(state) == 0\<close>,
  as \<^verbatim>\<open>PGD\<close> and \<^verbatim>\<open>FrankWolfe\<close> have it.
\<close>

definition momentum_state_of :: "momentum_state param \<Rightarrow> momentum_state" where
  "momentum_state_of p =
    (case p_state p of
       None \<Rightarrow> \<lparr>step = 0, grad_estimate = zeros_like (p_data p), certificate = None\<rparr>
     | Some st \<Rightarrow> st)"

text \<open>\<^verbatim>\<open>state['grad_estimate'].add_(grad - state['grad_estimate'], alpha=1. - momentum)\<close>.\<close>

definition ema_update :: "tensor \<Rightarrow> tensor \<Rightarrow> real \<Rightarrow> tensor" where
  "ema_update grad_estimate_t grad momentum =
    t_add grad_estimate_t (t_scale (1 - momentum) (t_sub grad grad_estimate_t))"

text \<open>
  The body of the loop of \<^verbatim>\<open>PGD.step\<close> for a parameter with a gradient. The wrapper is
  called as \<^verbatim>\<open>self.prox[idx](p - step_size * grad_est, 1.)\<close>, with the literal \<open>1.\<close> as
  its second argument.
\<close>

definition PGD_update ::
  "pgd \<Rightarrow> nat \<Rightarrow> grad \<Rightarrow> momentum_state param
    \<Rightarrow> py_error option \<times> nat \<times> momentum_state param" where
  "PGD_update self idx g p =
    (case g of
       Sparse \<Rightarrow> (Some RuntimeError, idx, p)
     | Dense grad \<Rightarrow>
         (let state0 = momentum_state_of p;
              state1 = state0\<lparr>step := step state0 + 1\<rparr>
          in case py_num (pgd_momentum self) of
               Inl e \<Rightarrow> (Some e, idx, p\<lparr>p_state := Some state1\<rparr>)
             | Inr momentum \<Rightarrow>
                 (let state2 = state1\<lparr>grad_estimate :=
                                 ema_update (grad_estimate state1) grad momentum\<rparr>
                  in if \<not> normalize_defined (grad_estimate state2) (pgd_normalization self)
                     then (Some NonFinite, idx, p\<lparr>p_state := Some state2\<rparr>)
                     else
                  (let grad_est = normalize_gradient (grad_estimate state2)
                                   (pgd_normalization self)
                  in case schedule_step_size (pgd_lr self) (step state2) of
                       Inl e \<Rightarrow> (Some e, idx, p\<lparr>p_state := Some state2\<rparr>)
                     | Inr step_size \<Rightarrow>
                         (case py_index (pgd_prox self) idx of
                            Inl e \<Rightarrow> (Some e, idx, p\<lparr>p_state := Some state2\<rparr>)
                          | Inr prox_idx \<Rightarrow>
                              (case prox_idx (t_sub (p_data p) (t_scale step_size grad_est))
                                      (Some 1) of
                                 Inl e \<Rightarrow> (Some e, idx, p\<lparr>p_state := Some state2\<rparr>)
                               | Inr new_p \<Rightarrow>
                                   (None, idx + 1,
                                    p\<lparr>p_data := new_p,
                                      p_state := Some (state2\<lparr>certificate :=
                                        Some (t_norm (t_div (t_sub (p_data p) new_p)
                                                        step_size))\<rparr>)\<rparr>)))))))"

text \<open>
  \<^verbatim>\<open>PGD.step\<close>: the exception raised, if any, the loss returned, and the optimizer
  afterwards.
\<close>

definition PGD_step ::
  "pgd \<Rightarrow> (momentum_state param list \<Rightarrow> real \<times> momentum_state param list) option
    \<Rightarrow> py_error option \<times> real option \<times> pgd" where
  "PGD_step self closure =
    (case run_closure closure (pgd_params self) of
       (loss, ps) \<Rightarrow>
         (case params_loop (PGD_update self) 0 ps of
            (e, ps') \<Rightarrow> (e, loss, self\<lparr>pgd_params := ps'\<rparr>)))"


section \<open>PGDMadry\<close>

text \<open>
  The constructors of \<^verbatim>\<open>PGDMadry\<close> and \<^verbatim>\<open>S3CM\<close> first replace a missing oracle by the
  identity (\<^verbatim>\<open>if prox_el is None: def prox_el(x, s=None): return x\<close>) and then append
  \<^verbatim>\<open>prox_el(x.unsqueeze(0), s).squeeze()\<close> as a nested function or lambda. As in \<^verbatim>\<open>PGD\<close> the
  wrapper reads \<^verbatim>\<open>prox_el\<close> when it is called, after the loop: every wrapper calls what the
  last round of the loop left in the variable. These wrappers pass their step size on and
  never raise.
\<close>

type_synonym total_prox_wrapper = "tensor \<Rightarrow> real option \<Rightarrow> tensor"

definition wrap_prox :: "prox_oracle option list \<Rightarrow> total_prox_wrapper list" where
  "wrap_prox prox =
    map (\<lambda>_. (\<lambda>x s. squeeze ((case last prox of
                                    Some prox_el \<Rightarrow> prox_el
                                  | None \<Rightarrow> prox_identity) (unsqueeze0 x) s)))
      prox"

text \<open>
  The LMO wrappers of \<^verbatim>\<open>PGDMadry\<close> and \<^verbatim>\<open>FrankWolfe\<close>:
  \<^verbatim>\<open>update_direction, max_step_size = oracle(u.unsqueeze(0), x.unsqueeze(0))\<close>,
  \<^verbatim>\<open>return update_direction.squeeze(dim=0), max_step_size\<close>, appended in a loop over
  \<^verbatim>\<open>lmo\<close> with the loop variable read at the call.
\<close>

definition wrap_lmo :: "lmo_oracle list \<Rightarrow> lmo_wrapper list" where
  "wrap_lmo lmo =
    map (\<lambda>_. (\<lambda>u x. case (last lmo) (unsqueeze0 u) (unsqueeze0 x) of
                        (update_direction, max_step_size) \<Rightarrow>
                          (squeeze update_direction, max_step_size)))
      lmo"

record madry_state =
  m_step :: real
  m_certificate :: "real option"

record pgd_madry =
  madry_prox :: "total_prox_wrapper list"
  madry_lmo :: "lmo_wrapper list"
  madry_lr :: pyval
  madry_params :: "madry_state param list"

text \<open>\<^verbatim>\<open>PGDMadry.__init__\<close>; iterating over the default \<^verbatim>\<open>prox=None\<close> raises.\<close>

definition PGDMadry_init ::
  "(tensor \<times> grad option) list \<Rightarrow> lmo_oracle list \<Rightarrow> prox_oracle option list option \<Rightarrow> pyval
    \<Rightarrow> py_error + pgd_madry" where
  "PGDMadry_init params lmo prox lr =
    (case prox of
       None \<Rightarrow> Inl TypeError
     | Some prox \<Rightarrow>
         if \<not> (is_float lr \<or> lr = PyStr ''sublinear'') then Inl ValueError
         else if params = [] then Inl ValueError
         else Inr \<lparr>madry_prox = wrap_prox prox, madry_lmo = wrap_lmo lmo, madry_lr = lr,
                   madry_params = map register params\<rparr>)"

text \<open>
  The body of the loop of \<^verbatim>\<open>PGDMadry.step\<close>. The local variables are \<^verbatim>\<open>idx\<close> and
  \<^verbatim>\<open>step_size\<close>, the latter being the argument of \<^verbatim>\<open>step\<close> until the body assigns it.
\<close>

definition PGDMadry_update ::
  "pgd_madry \<Rightarrow> nat \<times> pyval \<Rightarrow> grad \<Rightarrow> madry_state param
    \<Rightarrow> py_error option \<times> (nat \<times> pyval) \<times> madry_state param" where
  "PGDMadry_update self l g p =
    (case l of (idx, step_size_arg) \<Rightarrow>
      (case g of
         Sparse \<Rightarrow> (Some RuntimeError, (idx, step_size_arg), p)
       | Dense grad \<Rightarrow>
           (let state0 = (case p_state p of
                            None \<Rightarrow> \<lparr>m_step = 0, m_certificate = None\<rparr>
                          | Some st \<Rightarrow> st);
                state1 = state0\<lparr>m_step := m_step state0 + 1\<rparr>;
                step_size = (if madry_lr self = PyStr ''sublinear''
                             then PyFloat (1 / (m_step state1 + 1))
                             else madry_lr self)
            in case py_index (madry_lmo self) idx of
                 Inl e \<Rightarrow> (Some e, (idx, step_size), p\<lparr>p_state := Some state1\<rparr>)
               | Inr lmo_idx \<Rightarrow>
                   (let lmo_res = fst (lmo_idx (t_neg grad) (p_data p));
                        normalized_grad = t_add lmo_res (p_data p)
                    in case py_index (madry_prox self) idx of
                         Inl e \<Rightarrow> (Some e, (idx, step_size), p\<lparr>p_state := Some state1\<rparr>)
                       | Inr prox_idx \<Rightarrow>
                           (case py_num step_size of
                              Inl e \<Rightarrow>
                                (Some e, (idx, step_size), p\<lparr>p_state := Some state1\<rparr>)
                            | Inr s \<Rightarrow>
                                (let new_p = prox_idx (t_add (p_data p)
                                                        (t_scale s normalized_grad)) None
                                 in (None, (idx + 1, step_size),
                                     p\<lparr>p_data := new_p,
                                       p_state := Some (state1\<lparr>m_certificate :=
                                         Some (t_norm (t_div (t_sub (p_data p) new_p)
                                                         s))\<rparr>)\<rparr>)))))))"

definition PGDMadry_step ::
  "pgd_madry \<Rightarrow> pyval \<Rightarrow> (madry_state param list \<Rightarrow> real \<times> madry_state param list) option
    \<Rightarrow> py_error option \<times> real option \<times> pgd_madry" where
  "PGDMadry_step self step_size closure =
    (case run_closure closure (madry_params self) of
       (loss, ps) \<Rightarrow>
         (case params_loop (PGDMadry_update self) (0, step_size) ps of
            (e, ps') \<Rightarrow> (e, loss, self\<lparr>madry_params := ps'\<rparr>)))"

section \<open>S3CM\<close>

text \<open>
  The state of a parameter in \<^verbatim>\<open>S3CM\<close>. The initialization writes \<^verbatim>\<open>step\<close> and
  \<^verbatim>\<open>iterate_1\<close> before it looks \<^verbatim>\<open>self.prox2[idx]\<close> up, so a state can lack \<^verbatim>\<open>iterate_2\<close>
  and \<^verbatim>\<open>dual\<close>.
\<close>

record s3cm_state =
  s_step :: real
  iterate_1 :: tensor
  iterate_2 :: "tensor option"
  dual :: "tensor option"

record s3cm =
  s3cm_lr :: real
  s3cm_normalization :: string
  s3cm_prox1 :: "total_prox_wrapper list"
  s3cm_prox2 :: "total_prox_wrapper list"
  s3cm_params :: "s3cm_state param list"

text \<open>
  \<^verbatim>\<open>S3CM.__init__\<close>. The wrappers are built in one loop over \<^verbatim>\<open>zip(prox1, prox2)\<close>, which
  stops at the shorter list.
\<close>

definition S3CM_init ::
  "(tensor \<times> grad option) list \<Rightarrow> prox_oracle option list option
    \<Rightarrow> prox_oracle option list option \<Rightarrow> pyval \<Rightarrow> string \<Rightarrow> py_error + s3cm" where
  "S3CM_init params prox1 prox2 lr normalization =
    (case lr of
       PyFloat lr_value \<Rightarrow>
         if normalization \<notin> set PGD_POSSIBLE_NORMALIZATIONS then Inl ValueError
         else
           (let prox1 = (case prox1 of None \<Rightarrow> replicate (length params) None | Some l \<Rightarrow> l);
                prox2 = (case prox2 of None \<Rightarrow> replicate (length params) None | Some l \<Rightarrow> l);
                pairs = zip prox1 prox2
            in if params = [] then Inl ValueError
               else Inr \<lparr>s3cm_lr = lr_value, s3cm_normalization = normalization,
                         s3cm_prox1 = wrap_prox (map fst pairs),
                         s3cm_prox2 = wrap_prox (map snd pairs),
                         s3cm_params = map register params\<rparr>)
     | _ \<Rightarrow> Inl ValueError)"

text \<open>The block \<^verbatim>\<open>if len(state) == 0\<close> of \<^verbatim>\<open>S3CM.step\<close>.\<close>

definition S3CM_initialize :: "s3cm \<Rightarrow> nat \<Rightarrow> s3cm_state param \<Rightarrow> py_error option \<times> s3cm_state" where
  "S3CM_initialize self idx p =
    (case p_state p of
       Some st \<Rightarrow> (None, st)
     | None \<Rightarrow>
         (case py_index (s3cm_prox2 self) idx of
            Inl e \<Rightarrow>
              (Some e, \<lparr>s_step = 0, iterate_1 = p_data p, iterate_2 = None, dual = None\<rparr>)
          | Inr prox2_idx \<Rightarrow>
              (let it2 = prox2_idx (p_data p) (Some (s3cm_lr self))
               in (None, \<lparr>s_step = 0, iterate_1 = p_data p, iterate_2 = Some it2,
                          dual = Some (t_div (t_sub (p_data p) it2) (s3cm_lr self))\<rparr>))))"

text \<open>The body of the loop of \<^verbatim>\<open>S3CM.step\<close>.\<close>

definition S3CM_update ::
  "s3cm \<Rightarrow> nat \<Rightarrow> grad \<Rightarrow> s3cm_state param \<Rightarrow> py_error option \<times> nat \<times> s3cm_state param" where
  "S3CM_update self idx g p =
    (case g of
       Sparse \<Rightarrow> (Some RuntimeError, idx, p)
     | Dense raw_grad \<Rightarrow>
         if \<not> normalize_defined raw_grad (s3cm_normalization self)
         then (Some NonFinite, idx, p)
         else
         (let grad = normalize_gradient raw_grad (s3cm_normalization self);
              lr = s3cm_lr self
          in case S3CM_initialize self idx p of
               (Some e, st) \<Rightarrow> (Some e, idx, p\<lparr>p_state := Some st\<rparr>)
             | (None, st) \<Rightarrow>
                 (case py_index (s3cm_prox2 self) idx of
                    Inl e \<Rightarrow> (Some e, idx, p\<lparr>p_state := Some st\<rparr>)
                  | Inr prox2_idx \<Rightarrow>
                      (case dual st of
                         None \<Rightarrow> (Some KeyError, idx, p\<lparr>p_state := Some st\<rparr>)
                       | Some dual0 \<Rightarrow>
                           (let it2 = prox2_idx (t_add (iterate_1 st) (t_scale lr dual0))
                                        (Some lr);
                                dual1 = t_add dual0 (t_div (t_sub (iterate_1 st) it2) lr);
                                st1 = st\<lparr>iterate_2 := Some it2, dual := Some dual1\<rparr>
                            in case py_index (s3cm_prox1 self) idx of
                                 Inl e \<Rightarrow> (Some e, idx, p\<lparr>p_state := Some st1\<rparr>)
                               | Inr prox1_idx \<Rightarrow>
                                   (let it1 = prox1_idx (t_sub it2
                                                (t_scale lr (t_add grad dual1))) (Some lr)
                                    in (None, idx + 1,
                                        p\<lparr>p_data := it2,
                                          p_state := Some (st1\<lparr>iterate_1 := it1\<rparr>)\<rparr>)))))))"

text \<open>\<^verbatim>\<open>S3CM.step\<close>, which returns nothing.\<close>

definition S3CM_step ::
  "s3cm \<Rightarrow> (s3cm_state param list \<Rightarrow> real \<times> s3cm_state param list) option
    \<Rightarrow> py_error option \<times> s3cm" where
  "S3CM_step self closure =
    (case run_closure closure (s3cm_params self) of
       (loss, ps) \<Rightarrow>
         (case params_loop (S3CM_update self) 0 ps of
            (e, ps') \<Rightarrow> (e, self\<lparr>s3cm_params := ps'\<rparr>)))"

section \<open>FrankWolfe\<close>

record frank_wolfe =
  fw_lmo :: "lmo_wrapper list"
  fw_lr :: pyval
  fw_momentum :: pyval
  fw_weight_decay :: real
  fw_normalization :: string
  fw_params :: "momentum_state param list"

definition FW_POSSIBLE_NORMALIZATIONS :: "string list" where
  "FW_POSSIBLE_NORMALIZATIONS = [''gradient'', ''none'']"

definition FrankWolfe_init ::
  "(tensor \<times> grad option) list \<Rightarrow> lmo_oracle list \<Rightarrow> pyval \<Rightarrow> pyval \<Rightarrow> real \<Rightarrow> string
    \<Rightarrow> py_error + frank_wolfe" where
  "FrankWolfe_init params lmo lr momentum weight_decay normalization =
    (if (case lr of PyFloat l \<Rightarrow> \<not> (0 < l \<and> l \<le> 1) | _ \<Rightarrow> False) then Inl ValueError
     else if (case momentum of PyFloat m \<Rightarrow> \<not> (0 \<le> m \<and> m \<le> 1) | _ \<Rightarrow> False)
       then Inl ValueError
     else if \<not> (weight_decay \<ge> 0) then Inl ValueError
     else if normalization \<notin> set FW_POSSIBLE_NORMALIZATIONS then Inl ValueError
     else if params = [] then Inl ValueError
     else Inr \<lparr>fw_lmo = wrap_lmo lmo, fw_lr = lr, fw_momentum = momentum,
               fw_weight_decay = weight_decay, fw_normalization = normalization,
               fw_params = map register params\<rparr>)"

text \<open>
  The step size under \<^verbatim>\<open>normalization == 'gradient'\<close>:
  \<^verbatim>\<open>min(1., step_size * grad_norm / torch.linalg.norm(update_direction))\<close>. When the norm of
  the direction is zero the quotient is infinite or NaN, and Python's \<^verbatim>\<open>min\<close> answers
  \<open>1\<close> in both cases.
\<close>

definition gradient_step_size :: "real \<Rightarrow> tensor \<Rightarrow> tensor \<Rightarrow> real" where
  "gradient_step_size step_size grad_estimate_t update_direction =
    (if t_norm update_direction = 0 then 1
     else min 1 (step_size * t_norm grad_estimate_t / t_norm update_direction))"

text \<open>
  \<^verbatim>\<open>if self.lr == 'sublinear': ... elif type(self.lr) == float: ... else: raise ValueError\<close>.
\<close>

definition FrankWolfe_step_size :: "pyval \<Rightarrow> real \<Rightarrow> py_error + real" where
  "FrankWolfe_step_size lr step_count =
    (if lr = PyStr ''sublinear'' then Inr (1 / (step_count + 1))
     else if is_float lr then py_num lr
     else Inl ValueError)"

text \<open>
  \<^verbatim>\<open>if self.momentum is None: rho = (1. / (state['step'] + 1)) ** (1/3); momentum = 1. - rho\<close>,
  \<^verbatim>\<open>else: momentum = self.momentum\<close>, with the momentum then used as a number.
\<close>

definition FrankWolfe_momentum :: "pyval \<Rightarrow> real \<Rightarrow> py_error + real" where
  "FrankWolfe_momentum momentum step_count =
    (if momentum = PyNone then Inr (1 - (1 / (step_count + 1)) powr (1 / 3))
     else py_num momentum)"

text \<open>
  The body of the loop of \<^verbatim>\<open>FrankWolfe.step\<close>. A sparse \<^verbatim>\<open>p.grad\<close> raises at the latest
  at the check \<^verbatim>\<open>grad.is_sparse\<close>.
\<close>

definition FrankWolfe_update ::
  "frank_wolfe \<Rightarrow> nat \<Rightarrow> grad \<Rightarrow> momentum_state param
    \<Rightarrow> py_error option \<times> nat \<times> momentum_state param" where
  "FrankWolfe_update self idx g p =
    (case g of
       Sparse \<Rightarrow> (Some RuntimeError, idx, p)
     | Dense p_grad_t \<Rightarrow>
         (let grad = t_add p_grad_t (t_scale (fw_weight_decay self) (p_data p));
              state0 = momentum_state_of p
          in case FrankWolfe_step_size (fw_lr self) (step state0) of
               Inl e \<Rightarrow> (Some e, idx, p\<lparr>p_state := Some state0\<rparr>)
             | Inr step_size0 \<Rightarrow>
                 (let state1 = state0\<lparr>step := step state0 + 1\<rparr>
                  in case FrankWolfe_momentum (fw_momentum self) (step state0) of
                       Inl e \<Rightarrow> (Some e, idx, p\<lparr>p_state := Some state1\<rparr>)
                     | Inr momentum \<Rightarrow>
                         (let state2 = state1\<lparr>grad_estimate :=
                                         ema_update (grad_estimate state1) grad momentum\<rparr>
                          in case py_index (fw_lmo self) idx of
                               Inl e \<Rightarrow> (Some e, idx, p\<lparr>p_state := Some state2\<rparr>)
                             | Inr lmo_idx \<Rightarrow>
                                 (let update_direction =
                                        fst (lmo_idx (t_neg (grad_estimate state2)) (p_data p));
                                      state3 = state2\<lparr>certificate :=
                                        Some (t_sum (t_mul (t_neg (grad_estimate state2))
                                                       update_direction))\<rparr>;
                                      step_size =
                                        (if fw_normalization self = ''gradient''
                                         then gradient_step_size step_size0
                                                (grad_estimate state2) update_direction
                                         else step_size0)
                                  in (None, idx + 1,
                                      p\<lparr>p_data := t_add (p_data p)
                                                     (t_scale step_size update_direction),
                                        p_state := Some state3\<rparr>))))))"

definition FrankWolfe_step ::
  "frank_wolfe \<Rightarrow> (momentum_state param list \<Rightarrow> real \<times> momentum_state param list) option
    \<Rightarrow> py_error option \<times> real option \<times> frank_wolfe" where
  "FrankWolfe_step self closure =
    (case run_closure closure (fw_params self) of
       (loss, ps) \<Rightarrow>
         (case params_loop (FrankWolfe_update self) 0 ps of
            (e, ps') \<Rightarrow> (e, loss, self\<lparr>fw_params := ps'\<rparr>)))"

section \<open>Training iterations and sample optimizers\<close>

text \<open>
  Between two calls of \<^verbatim>\<open>step\<close> the training loop leaves new gradients on the
  parameters (\<^verbatim>\<open>loss.backward()\<close>): \<open>set_grads\<close> stores them in registration order.
\<close>

definition set_grads :: "grad option list \<Rightarrow> 's param list \<Rightarrow> 's param list" where
  "set_grads gs ps = map2 (\<lambda>g p. p\<lparr>p_grad := g\<rparr>) gs ps"

text \<open>
  One training iteration with \<^verbatim>\<open>FrankWolfe\<close>: the backward pass leaves the gradients
  \<open>gs\<close>, then \<^verbatim>\<open>step()\<close> runs; the result is the optimizer afterwards.
\<close>

definition FrankWolfe_iteration :: "frank_wolfe \<Rightarrow> grad option list \<Rightarrow> frank_wolfe" where
  "FrankWolfe_iteration self gs =
    snd (snd (FrankWolfe_step (self\<lparr>fw_params := set_grads gs (fw_params self)\<rparr>) None))"

text \<open>An LMO that answers a scalar point with a scalar direction.\<close>

definition scalar_lmo :: "lmo_oracle \<Rightarrow> bool" where
  "scalar_lmo oracle = (\<forall>u x. length (squeeze (fst (oracle [[u]] [[x]]))) = 1)"

text \<open>
  Optimizers in the middle of a run, with two scalar parameters: the first has state from
  an earlier step and no gradient now, the second has a gradient.
\<close>

definition sample_pgd :: pgd where
  "sample_pgd =
    \<lparr>pgd_prox = PGD_wrap [None, None], pgd_lr = PyFloat (1 / 10),
     pgd_momentum = PyFloat (9 / 10), pgd_normalization = ''none'',
     pgd_params =
       [\<lparr>p_data = [1], p_grad = None,
         p_state = Some \<lparr>step = 1, grad_estimate = [1 / 2], certificate = Some 2\<rparr>\<rparr>,
        \<lparr>p_data = [2], p_grad = Some (Dense [1]), p_state = None\<rparr>]\<rparr>"

definition sample_madry :: pgd_madry where
  "sample_madry =
    \<lparr>madry_prox = wrap_prox [None, None],
     madry_lmo = wrap_lmo [\<lambda>u x. (u, 1), \<lambda>u x. (u, 1)],
     madry_lr = PyFloat (1 / 10),
     madry_params =
       [\<lparr>p_data = [1], p_grad = None,
         p_state = Some \<lparr>m_step = 1, m_certificate = Some 2\<rparr>\<rparr>,
        \<lparr>p_data = [2], p_grad = Some (Dense [1]), p_state = None\<rparr>]\<rparr>"

definition sample_s3cm :: s3cm where
  "sample_s3cm =
    \<lparr>s3cm_lr = 1 / 10, s3cm_normalization = ''none'',
     s3cm_prox1 = wrap_prox [None, None], s3cm_prox2 = wrap_prox [None, None],
     s3cm_params =
       [\<lparr>p_data = [1], p_grad = None,
         p_state = Some \<lparr>s_step = 0, iterate_1 = [1 / 2], iterate_2 = Some [1],
                          dual = Some [0]\<rparr>\<rparr>,
        \<lparr>p_data = [2], p_grad = Some (Dense [1]), p_state = None\<rparr>]\<rparr>"

definition sample_fw :: frank_wolfe where
  "sample_fw =
    \<lparr>fw_lmo = wrap_lmo [\<lambda>u x. (u, 1), \<lambda>u x. (u, 1)], fw_lr = PyFloat (1 / 10),
     fw_momentum = PyFloat (9 / 10), fw_weight_decay = 0, fw_normalization = ''none'',
     fw_params =
       [\<lparr>p_data = [1], p_grad = None,
         p_state = Some \<lparr>step = 1, grad_estimate = [1 / 2], certificate = Some 2\<rparr>\<rparr>,
        \<lparr>p_data = [2], p_grad = Some (Dense [1]), p_state = None\<rparr>]\<rparr>"

text \<open>
  A \<^verbatim>\<open>FrankWolfe\<close> optimizer as constructed, with one scalar parameter, fixed momentum
  \<open>0.9\<close>, no weight decay, and an LMO that answers with the direction it is given.
\<close>

definition sample_fw_fresh :: frank_wolfe where
  "sample_fw_fresh =
    \<lparr>fw_lmo = wrap_lmo [\<lambda>u x. (u, 1)], fw_lr = PyFloat (1 / 10),
     fw_momentum = PyFloat (9 / 10), fw_weight_decay = 0, fw_normalization = ''none'',
     fw_params = [\<lparr>p_data = [5], p_grad = None, p_state = None\<rparr>]\<rparr>"

text \<open>
  A training iteration with \<^verbatim>\<open>S3CM\<close>, and a run of \<open>n\<close> iterations in which the
  backward pass leaves the same gradients each time.
\<close>

definition S3CM_iteration :: "s3cm \<Rightarrow> grad option list \<Rightarrow> s3cm" where
  "S3CM_iteration self gs =
    snd (S3CM_step (self\<lparr>s3cm_params := set_grads gs (s3cm_params self)\<rparr>) None)"

fun S3CM_run :: "s3cm \<Rightarrow> grad option list \<Rightarrow> nat \<Rightarrow> s3cm" where
  "S3CM_run self gs 0 = self"
| "S3CM_run self gs (Suc n) = S3CM_iteration (S3CM_run self gs n) gs"

text \<open>
  An \<^verbatim>\<open>S3CM\<close> optimizer as constructed with \<^verbatim>\<open>prox1 = prox2 = None\<close>, learning rate
  \<open>0.1\<close> and one scalar parameter.
\<close>

definition sample_s3cm_fresh :: s3cm where
  "sample_s3cm_fresh =
    \<lparr>s3cm_lr = 1 / 10, s3cm_normalization = ''none'',
     s3cm_prox1 = wrap_prox [None], s3cm_prox2 = wrap_prox [None],
     s3cm_params = [\<lparr>p_data = [1], p_grad = Some (Dense [1]), p_state = None\<rparr>]\<rparr>"

text \<open>
  Three prox oracles: one that scales the point by the step size it is given and halves
  it when it is given none, the projection onto the set \<open>{0}\<close>, and the projection onto
  the box \<open>[-1, 1]\<^sup>n\<close>.
\<close>

definition halving_prox :: prox_oracle where
  "halving_prox x s =
    (case s of None \<Rightarrow> map (map (\<lambda>v. v / 2)) x | Some t \<Rightarrow> map (map (\<lambda>v. t * v)) x)"

definition zero_prox :: prox_oracle where
  "zero_prox x s = map (map (\<lambda>v. 0)) x"

definition box_prox :: prox_oracle where
  "box_prox x s = map (map (\<lambda>v. max (- 1) (min 1 v))) x"

text \<open>\<^verbatim>\<open>PGD\<close> optimizers as constructed, with scalar parameters.\<close>

definition sample_pgd_halving :: pgd where
  "sample_pgd_halving =
    \<lparr>pgd_prox = PGD_wrap [Some halving_prox], pgd_lr = PyFloat (1 / 4),
     pgd_momentum = PyFloat 0, pgd_normalization = ''none'',
     pgd_params = [\<lparr>p_data = [2], p_grad = Some (Dense [1]), p_state = None\<rparr>]\<rparr>"

definition sample_pgd_sublinear :: pgd where
  "sample_pgd_sublinear =
    \<lparr>pgd_prox = PGD_wrap [Some halving_prox], pgd_lr = PyStr ''sublinear'',
     pgd_momentum = PyFloat 0, pgd_normalization = ''none'',
     pgd_params = [\<lparr>p_data = [3], p_grad = Some (Dense [1]), p_state = None\<rparr>]\<rparr>"

definition sample_pgd_box :: pgd where
  "sample_pgd_box =
    \<lparr>pgd_prox = PGD_wrap [Some box_prox], pgd_lr = PyFloat (1 / 10),
     pgd_momentum = PyFloat (9 / 10), pgd_normalization = ''L2'',
     pgd_params = [\<lparr>p_data = [1], p_grad = Some (Dense [- 1]), p_state = None\<rparr>]\<rparr>"

definition sample_pgd_zero_gradient :: pgd where
  "sample_pgd_zero_gradient =
    \<lparr>pgd_prox = PGD_wrap [None], pgd_lr = PyFloat (1 / 10),
     pgd_momentum = PyFloat (9 / 10), pgd_normalization = ''L2'',
     pgd_params = [\<lparr>p_data = [1], p_grad = Some (Dense [0]), p_state = None\<rparr>]\<rparr>"

definition sample_pgd_two :: pgd where
  "sample_pgd_two =
    \<lparr>pgd_prox = PGD_wrap [Some zero_prox, Some prox_identity], pgd_lr = PyFloat (1 / 10),
     pgd_momentum = PyFloat (9 / 10), pgd_normalization = ''none'',
     pgd_params = [\<lparr>p_data = [1], p_grad = Some (Dense [0]), p_state = None\<rparr>,
                   \<lparr>p_data = [1], p_grad = Some (Dense [0]), p_state = None\<rparr>]\<rparr>"

definition sample_pgd_skip :: pgd where
  "sample_pgd_skip =
    \<lparr>pgd_prox = PGD_wrap [None, Some zero_prox], pgd_lr = PyFloat (1 / 10),
     pgd_momentum = PyFloat (9 / 10), pgd_normalization = ''none'',
     pgd_params = [\<lparr>p_data = [1], p_grad = None, p_state = None\<rparr>,
                   \<lparr>p_data = [1], p_grad = Some (Dense [0]), p_state = None\<rparr>]\<rparr>"

section \<open>Properties of the line search\<close>

lemma ls_loop_exhausted:
  assumes "\<forall>k<Suc n. \<exists>s f g. trial (l * 2 ^ k) = Inr (s, f, g, False)"
  shows "\<exists>s f g. trial (l * 2 ^ n) = Inr (s, f, g, False)
           \<and> ls_loop (Suc n) trial l prev = Inr (s, l * 2 ^ Suc n, f, g, True)"
  using assms
proof (induction n arbitrary: l prev)
  case 0
  then obtain s f g where "trial l = Inr (s, f, g, False)" by auto
  then show ?case by simp
next
  case (Suc n)
  from Suc.prems obtain s f g where t0: "trial l = Inr (s, f, g, False)"
    by (metis mult.right_neutral power_0 zero_less_Suc)
  have "\<forall>k<Suc n. \<exists>s f g. trial (l * 2 * 2 ^ k) = Inr (s, f, g, False)"
  proof (intro allI impI)
    fix k assume "k < Suc n"
    then have "Suc k < Suc (Suc n)" by simp
    with Suc.prems obtain s f g where "trial (l * 2 ^ Suc k) = Inr (s, f, g, False)" by blast
    then show "\<exists>s f g. trial (l * 2 * 2 ^ k) = Inr (s, f, g, False)"
      by (auto simp: mult.assoc)
  qed
  from Suc.IH[OF this, of "Some (s, f, g)"]
  obtain s' f' g' where r: "trial (l * 2 * 2 ^ n) = Inr (s', f', g', False)"
    "ls_loop (Suc n) trial (l * 2) (Some (s, f, g)) = Inr (s', l * 2 * 2 ^ Suc n, f', g', True)"
    by blast
  have "ls_loop (Suc (Suc n)) trial l prev = ls_loop (Suc n) trial (l * 2) (Some (s, f, g))"
    using t0 by simp
  with r show ?case by (auto simp: mult.assoc)
qed

lemma rejecting_trial:
  "ls_trial [0] 0 (\<lambda>_. (1, [0])) 1 10 [1] 1 (1 * 2 ^ k) = Inr (1 / 2 ^ k, 1, [0], False)"
proof -
  have a: "(1::real) / 2 ^ k \<le> 1" by (simp add: divide_le_eq)
  have b: "(0::real) < 1 / 2 ^ k" by simp
  have e: "EPS < 1" by (simp add: EPS_def)
  have "- 0.5 * (1 / 2 ^ k) * 1 + EPS < (1::real)"
    using b e by linarith
  then have c: "\<not> (1 - 0 \<le> - 0.5 * (1 / 2 ^ k) * 1 + EPS)" by simp
  have d: "(1::real) / 2 ^ k < 10" using a by linarith
  show ?thesis using c d
    by (simp add: ls_trial_def Let_def)
qed

text \<open>
  C4, as the code has it. On \<open>f(x) = 0.5 x\<^sup>2\<close> from \<open>x = 0\<close> with \<open>f_t = f(0) = 0\<close>, no
  previous value, direction \<open>1\<close>, certificate \<open>1\<close>, maximal step size \<open>10\<close>, squared
  direction norm \<open>1\<close> and initial estimate \<open>1\<close>, the objective grows along the direction,
  so the trials are rejected while the estimate doubles, until the slack \<open>EPS\<close> of the
  test covers the growth: the search accepts at the estimate \<open>2\<^sup>2\<^sup>3\<close>, on its 24th trial,
  with step size \<open>2\<^sup>-\<^sup>2\<^sup>3\<close> and \<open>f_next = 2\<^sup>-\<^sup>4\<^sup>7\<close>, and emits no warning.
\<close>

theorem line_search_half_square:
  "backtracking_step_size [0] 0 None half_square 1 1 10 [1] 1
     = Inr (1 / 2 ^ 23, 2 ^ 23, 1 / 2 ^ 47, [1 / 2 ^ 23], False)"
  by (simp add: backtracking_step_size_def ls_tighten_def max_ls_iter_def ls_trial_def
      half_square_def EPS_def t_add_def t_scale_def Let_def eval_nat_numeral)

text \<open>
  C4 as stated fails: the first trial does have step size \<open>1\<close> and \<open>f_next = 0.5\<close>, but
  the sufficient-decrease test rejects it (\<open>0.5 \<le> -0.5 + EPS\<close> is false), and the search
  does not return that trial.
\<close>

theorem line_search_half_square_first_trial_rejected:
  "ls_trial [0] 0 half_square 1 10 [1] 1 1 = Inr (1, 1 / 2, [1], False)
   \<and> backtracking_step_size [0] 0 None half_square 1 1 10 [1] 1
       \<noteq> Inr (1, 1, 1 / 2, [1], False)"
  by (simp add: backtracking_step_size_def ls_tighten_def max_ls_iter_def ls_trial_def
      half_square_def EPS_def t_add_def t_scale_def Let_def eval_nat_numeral)

text \<open>
  C8. Let \<open>l\<close> be the estimate after the tightening. When each of the \<open>max_ls_iter = 100\<close>
  trials, run at the estimates \<open>l, 2 l, \<dots>, 2\<^sup>9\<^sup>9 l\<close>, evaluates without error and fails the
  sufficient-decrease test, the search does not fail: it warns and returns the step size,
  objective value and gradient of the last trial, with the estimate as the last trial
  leaves it (doubled once more after its rejection).
\<close>

theorem line_search_exhausted_warns_and_returns:
  assumes "ls_tighten f_t old_f_t cert lipschitz_t norm_update_direction = Inr l"
    and "\<forall>k<max_ls_iter. \<exists>s f g.
           ls_trial x f_t f_grad cert max_step_size update_direction
             norm_update_direction (l * 2 ^ k) = Inr (s, f, g, False)"
  shows "\<exists>step_size_t f_next grad_next.
           ls_trial x f_t f_grad cert max_step_size update_direction
             norm_update_direction (l * 2 ^ (max_ls_iter - 1))
             = Inr (step_size_t, f_next, grad_next, False)
         \<and> backtracking_step_size x f_t old_f_t f_grad cert lipschitz_t max_step_size
             update_direction norm_update_direction
             = Inr (step_size_t, l * 2 ^ max_ls_iter, f_next, grad_next, True)"
proof -
  have m: "max_ls_iter = Suc 99" by (simp add: max_ls_iter_def)
  show ?thesis
    using ls_loop_exhausted[of 99 "ls_trial x f_t f_grad cert max_step_size
             update_direction norm_update_direction" l None] assms
    by (simp add: backtracking_step_size_def m)
qed

theorem line_search_exhausted_witness:
  "ls_tighten 0 None 1 1 1 = Inr 1
   \<and> ls_trial [0] 0 (\<lambda>_. (1, [0])) 1 10 [1] 1 (1 * 2 ^ 99) = Inr (1 / 2 ^ 99, 1, [0], False)
   \<and> backtracking_step_size [0] 0 None (\<lambda>_. (1, [0])) 1 1 10 [1] 1
       = Inr (1 / 2 ^ 99, 1 * 2 ^ 100, 1, [0], True)"
proof -
  have t: "ls_tighten 0 None 1 1 1 = Inr 1" by (simp add: ls_tighten_def)
  have r: "\<forall>k<max_ls_iter. \<exists>s f g.
         ls_trial [0] 0 (\<lambda>_. (1, [0])) 1 10 [1] 1 (1 * 2 ^ k) = Inr (s, f, g, False)"
    using rejecting_trial by blast
  from line_search_exhausted_warns_and_returns[OF t r] obtain s f g where
    l: "ls_trial [0] 0 (\<lambda>_. (1, [0])) 1 10 [1] 1 (1 * 2 ^ (max_ls_iter - 1))
          = Inr (s, f, g, False)"
    and b: "backtracking_step_size [0] 0 None (\<lambda>_. (1, [0])) 1 1 10 [1] 1
       = Inr (s, 1 * 2 ^ max_ls_iter, f, g, True)"
    by blast
  from l have "s = 1 / 2 ^ 99 \<and> f = 1 \<and> g = [0]"
    unfolding rejecting_trial by (simp add: max_ls_iter_def)
  with b t rejecting_trial[of 99] show ?thesis by (simp add: max_ls_iter_def)
qed


section \<open>Properties of the parameter loop\<close>

lemma params_loop_snd_Cons:
  "snd (params_loop body l (p # ps)) =
    (case p_grad p of
       None \<Rightarrow> p # snd (params_loop body l ps)
     | Some g \<Rightarrow>
         (case body l g p of
            (Some e, l', p') \<Rightarrow> p' # ps
          | (None, l', p') \<Rightarrow> p' # snd (params_loop body l' ps)))"
  by (simp split: option.splits prod.splits)

lemma params_loop_length: "length (snd (params_loop body l ps)) = length ps"
proof (induction ps arbitrary: l)
  case Nil
  show ?case by simp
next
  case (Cons p ps)
  show ?case unfolding params_loop_snd_Cons
    by (simp add: Cons.IH split: option.splits prod.splits)
qed

lemma params_loop_frame:
  "i < length ps \<Longrightarrow> p_grad (ps ! i) = None \<Longrightarrow> snd (params_loop body l ps) ! i = ps ! i"
proof (induction ps arbitrary: l i)
  case Nil
  then show ?case by simp
next
  case (Cons p ps)
  show ?case
  proof (cases i)
    case 0
    with Cons.prems show ?thesis unfolding params_loop_snd_Cons by simp
  next
    case (Suc j)
    with Cons.prems have j: "j < length ps" "p_grad (ps ! j) = None" by simp_all
    show ?thesis unfolding params_loop_snd_Cons using Cons.IH[OF j] Suc
      by (simp split: option.splits prod.splits)
  qed
qed

lemma params_of_PGD_step:
  "pgd_params (snd (snd (PGD_step a None))) = snd (params_loop (PGD_update a) 0 (pgd_params a))"
  by (simp add: PGD_step_def run_closure_def split: prod.splits)

lemma params_of_PGDMadry_step:
  "madry_params (snd (snd (PGDMadry_step b s None)))
     = snd (params_loop (PGDMadry_update b) (0, s) (madry_params b))"
  by (simp add: PGDMadry_step_def run_closure_def split: prod.splits)

lemma params_of_S3CM_step:
  "s3cm_params (snd (S3CM_step c None)) = snd (params_loop (S3CM_update c) 0 (s3cm_params c))"
  by (simp add: S3CM_step_def run_closure_def split: prod.splits)

lemma params_of_FrankWolfe_step:
  "fw_params (snd (snd (FrankWolfe_step d None)))
     = snd (params_loop (FrankWolfe_update d) 0 (fw_params d))"
  by (simp add: FrankWolfe_step_def run_closure_def split: prod.splits)

text \<open>
  C9. In each of the four optimizers, \<^verbatim>\<open>step()\<close> leaves a parameter whose gradient is
  absent as it was: its tensor, and its state with step count, gradient estimate,
  iterates and certificate. This also holds when the step raises at another parameter.
\<close>

theorem step_skips_parameter_without_gradient:
  "(i < length (pgd_params a) \<and> p_grad (pgd_params a ! i) = None
      \<longrightarrow> pgd_params (snd (snd (PGD_step a None))) ! i = pgd_params a ! i)
   \<and> (i < length (madry_params b) \<and> p_grad (madry_params b ! i) = None
      \<longrightarrow> madry_params (snd (snd (PGDMadry_step b s None))) ! i = madry_params b ! i)
   \<and> (i < length (s3cm_params c) \<and> p_grad (s3cm_params c ! i) = None
      \<longrightarrow> s3cm_params (snd (S3CM_step c None)) ! i = s3cm_params c ! i)
   \<and> (i < length (fw_params d) \<and> p_grad (fw_params d ! i) = None
      \<longrightarrow> fw_params (snd (snd (FrankWolfe_step d None))) ! i = fw_params d ! i)"
  by (simp add: params_of_PGD_step params_of_PGDMadry_step params_of_S3CM_step
      params_of_FrankWolfe_step params_loop_frame)

theorem step_skips_parameter_without_gradient_witness:
  "p_grad (pgd_params sample_pgd ! 0) = None
   \<and> pgd_params (snd (snd (PGD_step sample_pgd None))) ! 0 = pgd_params sample_pgd ! 0
   \<and> p_grad (madry_params sample_madry ! 0) = None
   \<and> madry_params (snd (snd (PGDMadry_step sample_madry PyNone None))) ! 0
       = madry_params sample_madry ! 0
   \<and> p_grad (s3cm_params sample_s3cm ! 0) = None
   \<and> s3cm_params (snd (S3CM_step sample_s3cm None)) ! 0 = s3cm_params sample_s3cm ! 0
   \<and> p_grad (fw_params sample_fw ! 0) = None
   \<and> fw_params (snd (snd (FrankWolfe_step sample_fw None))) ! 0 = fw_params sample_fw ! 0"
  using step_skips_parameter_without_gradient
          [of 0 sample_pgd sample_madry PyNone sample_s3cm sample_fw]
  by (simp add: sample_pgd_def sample_madry_def sample_s3cm_def sample_fw_def)

section \<open>Properties of PGDMadry\<close>

lemma PGDMadry_update_dense_ignores_argument:
  "PGDMadry_update self (idx, s1) (Dense g) p = PGDMadry_update self (idx, s2) (Dense g) p"
  by (simp add: PGDMadry_update_def)

lemma PGDMadry_update_sparse:
  "PGDMadry_update self (idx, s1) Sparse p = (Some RuntimeError, (idx, s1), p)"
  by (simp add: PGDMadry_update_def)

lemma PGDMadry_loop_ignores_argument:
  "params_loop (PGDMadry_update self) (idx, s1) ps
     = params_loop (PGDMadry_update self) (idx, s2) ps"
proof (induction ps arbitrary: idx s1 s2)
  case Nil
  show ?case by simp
next
  case (Cons p ps)
  show ?case
  proof (cases "p_grad p")
    case None
    then show ?thesis using Cons.IH[of idx s1 s2] by simp
  next
    case (Some g)
    show ?thesis
    proof (cases g)
      case Sparse
      with Some show ?thesis by (simp add: PGDMadry_update_sparse)
    next
      case (Dense t)
      with Some show ?thesis
        using PGDMadry_update_dense_ignores_argument[of self idx s1 t p s2] by simp
    qed
  qed
qed

text \<open>
  C10. The \<^verbatim>\<open>step_size\<close> argument of \<^verbatim>\<open>PGDMadry.step\<close> has no effect: two calls that
  differ only in it (\<^verbatim>\<open>None\<close> included) raise the same exception or none, return the same
  loss and leave the same parameters, states and certificates, because the body of the
  loop assigns \<^verbatim>\<open>step_size\<close> from the configured learning rate before it reads it.
\<close>

theorem PGDMadry_step_ignores_step_size:
  "PGDMadry_step self s1 closure = PGDMadry_step self s2 closure"
  by (simp add: PGDMadry_step_def PGDMadry_loop_ignores_argument[of self 0 s1 _ s2])


section \<open>Properties of PGD\<close>

text \<open>
  C5 as stated fails: \<open>-1.0\<close> is a float, so the check
  \<^verbatim>\<open>type(lr) == float or lr == 'sublinear'\<close> passes and the optimizer is constructed.
\<close>

theorem PGD_init_accepts_negative_lr:
  "PGD_init [([0], None)] None (PyFloat (- 1)) (PyFloat (9 / 10)) ''none''
     = Inr \<lparr>pgd_prox = PGD_wrap [None], pgd_lr = PyFloat (- 1), pgd_momentum = PyFloat (9 / 10),
            pgd_normalization = ''none'',
            pgd_params = [\<lparr>p_data = [0], p_grad = None, p_state = None\<rparr>]\<rparr>"
  by (simp add: PGD_init_def PGD_POSSIBLE_NORMALIZATIONS_def register_def)

text \<open>
  C5, as the code has it. Constructing a \<^verbatim>\<open>PGD\<close> optimizer raises \<^verbatim>\<open>ValueError\<close>, with
  no optimizer and no state created, when \<^verbatim>\<open>lr\<close> is neither a float nor the tag
  \<^verbatim>\<open>'sublinear'\<close>. Every float passes the learning-rate check whatever its sign: with a
  nonempty parameter list, a known normalization and a momentum that is a float in
  \<open>[0, 1]\<close> or not a float, the optimizer is constructed with that learning rate and no
  per-parameter state.
\<close>

theorem PGD_init_checks_type_of_lr:
  "(\<not> is_float lr \<and> lr \<noteq> PyStr ''sublinear''
      \<longrightarrow> PGD_init params prox lr momentum normalization = Inl ValueError)
   \<and> (params \<noteq> [] \<and> normalization \<in> set PGD_POSSIBLE_NORMALIZATIONS
        \<and> (momentum = PyFloat m \<and> 0 \<le> m \<and> m \<le> 1 \<or> \<not> is_float momentum)
      \<longrightarrow> (\<exists>self. PGD_init params prox (PyFloat l) momentum normalization = Inr self
             \<and> pgd_lr self = PyFloat l
             \<and> map p_state (pgd_params self) = replicate (length params) None))"
proof -
  have "map (p_state \<circ> (register :: tensor \<times> grad option \<Rightarrow> momentum_state param)) params
          = replicate (length params) None"
    by (induction params) (simp_all add: register_def)
  then show ?thesis
    by (cases momentum) (auto simp: PGD_init_def Let_def)
qed

theorem PGD_init_checks_type_of_lr_witness:
  "PGD_init [([0], None)] None (PyInt 1) (PyFloat (9 / 10)) ''none'' = Inl ValueError
   \<and> (\<exists>self. PGD_init [([0], None)] None (PyFloat (- 1)) (PyFloat (9 / 10)) ''none'' = Inr self
         \<and> pgd_lr self = PyFloat (- 1) \<and> map p_state (pgd_params self) = [None])"
  using PGD_init_checks_type_of_lr
          [of "PyInt 1" "[([0], None)]" None "PyFloat (9 / 10)" "''none''" "9 / 10" "- 1"]
  by (simp add: PGD_POSSIBLE_NORMALIZATIONS_def)

section \<open>Properties of FrankWolfe\<close>

lemma FrankWolfe_update_params_irrelevant:
  "FrankWolfe_update (self\<lparr>fw_params := q\<rparr>) = FrankWolfe_update self"
proof (intro ext)
  fix idx g p
  show "FrankWolfe_update (self\<lparr>fw_params := q\<rparr>) idx g p = FrankWolfe_update self idx g p"
    by (cases g) (simp_all add: FrankWolfe_update_def Let_def split: sum.splits)
qed

lemma FrankWolfe_iteration_eq:
  "FrankWolfe_iteration self gs
     = self\<lparr>fw_params := snd (params_loop (FrankWolfe_update self) 0
                                (set_grads gs (fw_params self)))\<rparr>"
  by (simp add: FrankWolfe_iteration_def FrankWolfe_step_def run_closure_def
      FrankWolfe_update_params_irrelevant split: prod.splits)

lemma scalar_lmoD: "scalar_lmo oracle \<Longrightarrow> \<exists>d. squeeze (fst (oracle [[u]] [[x]])) = [d]"
proof -
  assume "scalar_lmo oracle"
  then have "length (squeeze (fst (oracle [[u]] [[x]]))) = 1" by (simp add: scalar_lmo_def)
  then show ?thesis by (cases "squeeze (fst (oracle [[u]] [[x]]))") auto
qed

lemma FrankWolfe_update_success:
  assumes "FrankWolfe_step_size (fw_lr self) (step (momentum_state_of p)) = Inr s0"
    and "FrankWolfe_momentum (fw_momentum self) (step (momentum_state_of p)) = Inr m"
    and "py_index (fw_lmo self) idx = Inr lmo_idx"
  shows "FrankWolfe_update self idx (Dense pg) p =
    (let grad = t_add pg (t_scale (fw_weight_decay self) (p_data p));
         state0 = momentum_state_of p;
         ge = ema_update (grad_estimate state0) grad m;
         update_direction = fst (lmo_idx (t_neg ge) (p_data p));
         step_size = (if fw_normalization self = ''gradient''
                      then gradient_step_size s0 ge update_direction else s0)
     in (None, idx + 1,
         p\<lparr>p_data := t_add (p_data p) (t_scale step_size update_direction),
           p_state := Some \<lparr>step = step state0 + 1, grad_estimate = ge,
                             certificate = Some (t_sum (t_mul (t_neg ge) update_direction))\<rparr>\<rparr>))"
  unfolding FrankWolfe_update_def using assms
  by (simp add: Let_def)


lemma FrankWolfe_update_scalar:
  assumes m: "fw_momentum self = PyFloat (9 / 10)"
    and wd: "fw_weight_decay self = 0"
    and lr: "is_float (fw_lr self) \<or> fw_lr self = PyStr ''sublinear''"
    and lmo: "fw_lmo self = wrap_lmo [oracle]" "scalar_lmo oracle"
    and p: "p_data p = [x]"
    and e: "grad_estimate (momentum_state_of p) = [e]"
  shows "\<exists>x' st'. FrankWolfe_update self 0 (Dense [g]) p
           = (None, 1, p\<lparr>p_data := [x'], p_state := Some st'\<rparr>)
           \<and> grad_estimate st' = [e + (1 / 10) * (g - e)]"
proof -
  define e' where "e' = e + (1 / 10) * (g - e)"
  have ema: "ema_update [e] (t_add [g] (t_scale 0 [x])) (9 / 10) = [e']"
    by (simp add: ema_update_def t_add_def t_scale_def t_sub_def e'_def)
  obtain d where d: "squeeze (fst (oracle [[- e']] [[x]])) = [d]"
    using scalar_lmoD[OF lmo(2)] by blast
  obtain s0 where s0: "FrankWolfe_step_size (fw_lr self) (step (momentum_state_of p)) = Inr s0"
    using lr by (cases "fw_lr self") (auto simp: FrankWolfe_step_size_def)
  have mom: "FrankWolfe_momentum (fw_momentum self) (step (momentum_state_of p)) = Inr (9 / 10)"
    by (simp add: FrankWolfe_momentum_def m)
  define w :: lmo_wrapper where "w = (\<lambda>u x. case oracle (unsqueeze0 u) (unsqueeze0 x) of
                     (update_direction, max_step_size) \<Rightarrow> (squeeze update_direction, max_step_size))"
  have idx: "py_index (fw_lmo self) 0 = Inr w"
    by (simp add: py_index_def lmo(1) wrap_lmo_def w_def)
  have dir: "fst (w (t_neg [e']) [x]) = [d]"
    using d by (simp add: w_def unsqueeze0_def t_neg_def case_prod_beta)
  have upd: "t_add [x] (t_scale s [d]) = [x + s * d]" for s
    by (simp add: t_add_def t_scale_def)
  let ?ss = "if fw_normalization self = ''gradient''
             then gradient_step_size s0 [e'] [d] else s0"
  let ?st = "\<lparr>step = step (momentum_state_of p) + 1, grad_estimate = [e'],
              certificate = Some (t_sum (t_mul (t_neg [e']) [d]))\<rparr>"
  have "FrankWolfe_update self 0 (Dense [g]) p
          = (None, 1, p\<lparr>p_data := [x + ?ss * d], p_state := Some ?st\<rparr>)"
    unfolding FrankWolfe_update_success[OF s0 mom idx]
    by (simp add: Let_def wd p e ema dir upd)
  moreover have "grad_estimate ?st = [e + (1 / 10) * (g - e)]"
    by (simp add: e'_def)
  ultimately show ?thesis by blast
qed

lemma FrankWolfe_iteration_scalar:
  assumes m: "fw_momentum self = PyFloat (9 / 10)"
    and wd: "fw_weight_decay self = 0"
    and lr: "is_float (fw_lr self) \<or> fw_lr self = PyStr ''sublinear''"
    and lmo: "fw_lmo self = wrap_lmo [oracle]" "scalar_lmo oracle"
    and ps: "fw_params self = [p]"
    and p: "p_data p = [x]"
    and e: "grad_estimate (momentum_state_of p) = [e]"
  shows "\<exists>p' x'. FrankWolfe_iteration self [Some (Dense [g])] = self\<lparr>fw_params := [p']\<rparr>
           \<and> p_data p' = [x']
           \<and> map_option grad_estimate (p_state p') = Some [e + (1 / 10) * (g - e)]"
proof -
  let ?q = "p\<lparr>p_grad := Some (Dense [g])\<rparr>"
  have q: "p_data ?q = [x]" "grad_estimate (momentum_state_of ?q) = [e]"
    using p e by (simp_all add: momentum_state_of_def split: option.splits)
  from FrankWolfe_update_scalar[OF m wd lr lmo q, of g]
  obtain x' st' where u: "FrankWolfe_update self 0 (Dense [g]) ?q
           = (None, 1, ?q\<lparr>p_data := [x'], p_state := Some st'\<rparr>)"
     and g: "grad_estimate st' = [e + (1 / 10) * (g - e)]" by blast
  have "FrankWolfe_iteration self [Some (Dense [g])]
          = self\<lparr>fw_params := [?q\<lparr>p_data := [x'], p_state := Some st'\<rparr>]\<rparr>"
    by (simp add: FrankWolfe_iteration_eq ps set_grads_def u)
  then show ?thesis using g by auto
qed

text \<open>
  C7. A \<^verbatim>\<open>FrankWolfe\<close> optimizer with fixed momentum \<open>0.9\<close>, weight decay \<open>0\<close>, a
  learning rate that is a float or \<^verbatim>\<open>'sublinear'\<close>, and one scalar parameter without state
  is fed the gradients \<open>1\<close>, \<open>2\<close>, \<open>3\<close> in three successive iterations. The gradient
  estimate starts at zero and is \<open>0.1\<close>, \<open>0.29\<close> and \<open>0.561\<close> after the first, second and
  third step, whatever the LMO (answering scalars with scalars), the learning rate and the
  normalization mode.
\<close>

theorem FrankWolfe_ema_trace:
  assumes m: "fw_momentum self = PyFloat (9 / 10)"
    and wd: "fw_weight_decay self = 0"
    and lr: "is_float (fw_lr self) \<or> fw_lr self = PyStr ''sublinear''"
    and lmo: "fw_lmo self = wrap_lmo [oracle]" "scalar_lmo oracle"
    and ps: "fw_params self = [\<lparr>p_data = [x], p_grad = g0, p_state = None\<rparr>]"
  shows "map (map_option grad_estimate \<circ> p_state)
           (fw_params (FrankWolfe_iteration self [Some (Dense [1])])) = [Some [1 / 10]]
       \<and> map (map_option grad_estimate \<circ> p_state)
           (fw_params (FrankWolfe_iteration (FrankWolfe_iteration self [Some (Dense [1])])
              [Some (Dense [2])])) = [Some [29 / 100]]
       \<and> map (map_option grad_estimate \<circ> p_state)
           (fw_params (FrankWolfe_iteration (FrankWolfe_iteration
              (FrankWolfe_iteration self [Some (Dense [1])]) [Some (Dense [2])])
              [Some (Dense [3])])) = [Some [561 / 1000]]"
proof -
  let ?p0 = "\<lparr>p_data = [x], p_grad = g0, p_state = (None :: momentum_state option)\<rparr>"
  have e0: "grad_estimate (momentum_state_of ?p0) = [0]"
    by (simp add: momentum_state_of_def zeros_like_def)
  from FrankWolfe_iteration_scalar[OF m wd lr lmo ps _ e0, of x 1]
  obtain p1 x1 where s1: "FrankWolfe_iteration self [Some (Dense [1])] = self\<lparr>fw_params := [p1]\<rparr>"
    and d1: "p_data p1 = [x1]"
    and g1: "map_option grad_estimate (p_state p1) = Some [1 / 10]" by auto
  let ?s1 = "self\<lparr>fw_params := [p1]\<rparr>"
  have c1: "fw_momentum ?s1 = PyFloat (9 / 10)" "fw_weight_decay ?s1 = 0"
    "is_float (fw_lr ?s1) \<or> fw_lr ?s1 = PyStr ''sublinear''" "fw_lmo ?s1 = wrap_lmo [oracle]"
    "fw_params ?s1 = [p1]"
    using m wd lr lmo by simp_all
  have e1: "grad_estimate (momentum_state_of p1) = [1 / 10]"
    using g1 by (auto simp: momentum_state_of_def)
  from FrankWolfe_iteration_scalar[OF c1(1-4) lmo(2) c1(5) d1 e1, of 2]
  obtain p2 x2 where s2: "FrankWolfe_iteration ?s1 [Some (Dense [2])] = ?s1\<lparr>fw_params := [p2]\<rparr>"
    and d2: "p_data p2 = [x2]"
    and g2: "map_option grad_estimate (p_state p2) = Some [29 / 100]" by auto
  let ?s2 = "?s1\<lparr>fw_params := [p2]\<rparr>"
  have c2: "fw_momentum ?s2 = PyFloat (9 / 10)" "fw_weight_decay ?s2 = 0"
    "is_float (fw_lr ?s2) \<or> fw_lr ?s2 = PyStr ''sublinear''" "fw_lmo ?s2 = wrap_lmo [oracle]"
    "fw_params ?s2 = [p2]"
    using m wd lr lmo by simp_all
  have e2: "grad_estimate (momentum_state_of p2) = [29 / 100]"
    using g2 by (auto simp: momentum_state_of_def)
  from FrankWolfe_iteration_scalar[OF c2(1-4) lmo(2) c2(5) d2 e2, of 3]
  obtain p3 x3 where s3: "FrankWolfe_iteration ?s2 [Some (Dense [3])] = ?s2\<lparr>fw_params := [p3]\<rparr>"
    and d3: "p_data p3 = [x3]"
    and g3: "map_option grad_estimate (p_state p3) = Some [561 / 1000]" by auto
  show ?thesis
    unfolding s1 s2 s3 using g1 g2 g3 by simp
qed

theorem FrankWolfe_ema_trace_witness:
  "scalar_lmo (\<lambda>u x. (u, 1))
   \<and> map (map_option grad_estimate \<circ> p_state)
        (fw_params (FrankWolfe_iteration sample_fw_fresh [Some (Dense [1])])) = [Some [1 / 10]]
   \<and> map (map_option grad_estimate \<circ> p_state)
        (fw_params (FrankWolfe_iteration
           (FrankWolfe_iteration sample_fw_fresh [Some (Dense [1])])
           [Some (Dense [2])])) = [Some [29 / 100]]
   \<and> map (map_option grad_estimate \<circ> p_state)
        (fw_params (FrankWolfe_iteration (FrankWolfe_iteration
           (FrankWolfe_iteration sample_fw_fresh [Some (Dense [1])]) [Some (Dense [2])])
           [Some (Dense [3])])) = [Some [561 / 1000]]"
proof -
  have l: "scalar_lmo (\<lambda>u x. (u, 1))"
    by (simp add: scalar_lmo_def squeeze_def)
  show ?thesis
    using l FrankWolfe_ema_trace[of sample_fw_fresh "\<lambda>u x. (u, 1)" 5 None, OF _ _ _ _ l]
    by (simp add: sample_fw_fresh_def)
qed


section \<open>Properties of tensor arithmetic\<close>

lemma t_sub_scale_zero: "length g = length x \<Longrightarrow> t_sub x (t_scale 0 g) = x"
  by (induction g x rule: list_induct2) (simp_all add: t_sub_def t_scale_def)

lemma t_div_self_difference: "t_div (t_sub x x) a = zeros_like x"
  by (induction x) (simp_all add: t_div_def t_sub_def zeros_like_def)

lemma t_add_scaled_zeros: "t_add x (t_scale a (zeros_like x)) = x"
  by (induction x) (simp_all add: t_add_def t_scale_def zeros_like_def)

lemma t_add_zeros_left:
  "length y = length x \<Longrightarrow> t_add (zeros_like x) (zeros_like y) = zeros_like x"
  by (induction y x rule: list_induct2) (simp_all add: t_add_def zeros_like_def)

lemma t_add_zeros_right: "length g = length x \<Longrightarrow> t_add g (zeros_like x) = g"
  by (induction g x rule: list_induct2) (simp_all add: t_add_def zeros_like_def)

lemma t_sub_scale_twice:
  "length g = length x \<Longrightarrow>
     t_sub (t_sub x (t_scale a g)) (t_scale b g) = t_sub x (t_scale (a + b) g)"
  by (induction g x rule: list_induct2) (simp_all add: t_sub_def t_scale_def algebra_simps)

lemma length_t_sub_scale: "length g = length x \<Longrightarrow> length (t_sub x (t_scale a g)) = length x"
  by (simp add: t_sub_def t_scale_def)

lemma zeros_like_cong: "length y = length x \<Longrightarrow> zeros_like y = zeros_like x"
  by (induction y x rule: list_induct2) (simp_all add: zeros_like_def)

lemma length_normalize_gradient: "length (normalize_gradient g m) = length g"
  by (simp add: normalize_gradient_def t_div_def)

section \<open>Properties of S3CM\<close>

lemma S3CM_initialize_params_irrelevant:
  "S3CM_initialize (self\<lparr>s3cm_params := q\<rparr>) idx p = S3CM_initialize self idx p"
  by (simp add: S3CM_initialize_def split: option.splits sum.splits)

lemma S3CM_update_params_irrelevant:
  "S3CM_update (self\<lparr>s3cm_params := q\<rparr>) = S3CM_update self"
proof (intro ext)
  fix idx g p
  show "S3CM_update (self\<lparr>s3cm_params := q\<rparr>) idx g p = S3CM_update self idx g p"
    by (cases g)
       (simp_all add: S3CM_update_def S3CM_initialize_params_irrelevant Let_def
          split: prod.splits option.splits sum.splits)
qed

lemma S3CM_iteration_eq:
  "S3CM_iteration self gs
     = self\<lparr>s3cm_params := snd (params_loop (S3CM_update self) 0
                                  (set_grads gs (s3cm_params self)))\<rparr>"
  by (simp add: S3CM_iteration_def S3CM_step_def run_closure_def
      S3CM_update_params_irrelevant split: prod.splits)


lemma identity_wrapper: "py_index (wrap_prox [None]) 0 = Inr (\<lambda>x s. x)"
  by (simp add: py_index_def wrap_prox_def prox_identity_def squeeze_def unsqueeze0_def)

lemma S3CM_update_identity_state:
  assumes w: "s3cm_prox1 self = wrap_prox [None]" "s3cm_prox2 self = wrap_prox [None]"
    and st: "p_state p = Some \<lparr>s_step = k, iterate_1 = y, iterate_2 = i2, dual = Some (zeros_like y)\<rparr>"
    and len: "length g = length y"
    and nd: "normalize_defined g (s3cm_normalization self)"
  shows "S3CM_update self 0 (Dense g) p =
    (None, 1, p\<lparr>p_data := y,
       p_state := Some \<lparr>s_step = k,
          iterate_1 = t_sub y (t_scale (s3cm_lr self) (normalize_gradient g (s3cm_normalization self))),
          iterate_2 = Some y, dual = Some (zeros_like y)\<rparr>\<rparr>)"
proof -
  have l: "length (normalize_gradient g (s3cm_normalization self)) = length y"
    using len by (simp add: length_normalize_gradient)
  show ?thesis
    unfolding S3CM_update_def
    by (simp add: S3CM_initialize_def st w nd identity_wrapper Let_def t_add_scaled_zeros
        t_div_self_difference t_add_zeros_left t_add_zeros_right[OF l])
qed

lemma S3CM_update_identity_fresh:
  assumes w: "s3cm_prox1 self = wrap_prox [None]" "s3cm_prox2 self = wrap_prox [None]"
    and st: "p_state p = None"
    and len: "length g = length (p_data p)"
    and nd: "normalize_defined g (s3cm_normalization self)"
  shows "S3CM_update self 0 (Dense g) p =
    (None, 1, p\<lparr>p_state := Some \<lparr>s_step = 0,
          iterate_1 = t_sub (p_data p)
             (t_scale (s3cm_lr self) (normalize_gradient g (s3cm_normalization self))),
          iterate_2 = Some (p_data p), dual = Some (zeros_like (p_data p))\<rparr>\<rparr>)"
proof -
  have l: "length (normalize_gradient g (s3cm_normalization self)) = length (p_data p)"
    using len by (simp add: length_normalize_gradient)
  show ?thesis
    unfolding S3CM_update_def
    by (simp add: S3CM_initialize_def st w nd identity_wrapper Let_def t_add_scaled_zeros
        t_div_self_difference t_add_zeros_left t_add_zeros_right[OF l])
qed


lemma S3CM_run_identity:
  assumes w: "s3cm_prox1 self = wrap_prox [None]" "s3cm_prox2 self = wrap_prox [None]"
    and ps: "s3cm_params self = [\<lparr>p_data = x, p_grad = g0, p_state = None\<rparr>]"
    and len: "length g = length x"
    and nd: "normalize_defined g (s3cm_normalization self)"
  shows "S3CM_run self [Some (Dense g)] (Suc n) =
    self\<lparr>s3cm_params :=
      [\<lparr>p_data = t_sub x (t_scale (real n * s3cm_lr self)
                          (normalize_gradient g (s3cm_normalization self))),
        p_grad = Some (Dense g),
        p_state = Some \<lparr>s_step = 0,
          iterate_1 = t_sub x (t_scale (real (Suc n) * s3cm_lr self)
                          (normalize_gradient g (s3cm_normalization self))),
          iterate_2 = Some (t_sub x (t_scale (real n * s3cm_lr self)
                          (normalize_gradient g (s3cm_normalization self)))),
          dual = Some (zeros_like x)\<rparr>\<rparr>]\<rparr>"
proof (induction n)
  case 0
  let ?gh = "normalize_gradient g (s3cm_normalization self)"
  let ?q = "\<lparr>p_data = x, p_grad = Some (Dense g), p_state = (None :: s3cm_state option)\<rparr>"
  have lg: "length ?gh = length x" using len by (simp add: length_normalize_gradient)
  have u: "S3CM_update self 0 (Dense g) ?q =
    (None, 1, ?q\<lparr>p_state := Some \<lparr>s_step = 0,
          iterate_1 = t_sub (p_data ?q) (t_scale (s3cm_lr self) ?gh),
          iterate_2 = Some (p_data ?q), dual = Some (zeros_like (p_data ?q))\<rparr>\<rparr>)"
    by (rule S3CM_update_identity_fresh[OF w]) (simp_all add: len nd)
  show ?case
    by (simp add: S3CM_iteration_eq ps set_grads_def u t_sub_scale_zero[OF lg])
next
  case (Suc n)
  let ?lr = "s3cm_lr self"
  let ?gh = "normalize_gradient g (s3cm_normalization self)"
  let ?y = "t_sub x (t_scale (real (Suc n) * ?lr) ?gh)"
  let ?q = "\<lparr>p_data = t_sub x (t_scale (real n * ?lr) ?gh), p_grad = Some (Dense g),
             p_state = Some \<lparr>s_step = 0, iterate_1 = ?y,
               iterate_2 = Some (t_sub x (t_scale (real n * ?lr) ?gh)),
               dual = Some (zeros_like x)\<rparr>\<rparr>"
  have lg: "length ?gh = length x" using len by (simp add: length_normalize_gradient)
  have ly: "length ?y = length x" by (rule length_t_sub_scale[OF lg])
  have st: "p_state ?q = Some \<lparr>s_step = 0, iterate_1 = ?y,
               iterate_2 = Some (t_sub x (t_scale (real n * ?lr) ?gh)),
               dual = Some (zeros_like ?y)\<rparr>"
    unfolding zeros_like_cong[OF ly] by (simp del: of_nat_Suc)
  have lgy: "length g = length ?y" using len ly by simp
  note u = S3CM_update_identity_state[OF w st lgy nd]
  have tw: "t_sub ?y (t_scale ?lr ?gh) = t_sub x (t_scale (real (Suc (Suc n)) * ?lr) ?gh)"
    unfolding t_sub_scale_twice[OF lg] by (simp add: algebra_simps)
  have "S3CM_run self [Some (Dense g)] (Suc (Suc n))
          = S3CM_iteration (self\<lparr>s3cm_params := [?q]\<rparr>) [Some (Dense g)]"
    using Suc.IH by (simp del: of_nat_Suc)
  also have "\<dots> = self\<lparr>s3cm_params := [?q\<lparr>p_data := ?y,
       p_state := Some \<lparr>s_step = 0, iterate_1 = t_sub ?y (t_scale ?lr ?gh),
          iterate_2 = Some ?y, dual = Some (zeros_like ?y)\<rparr>\<rparr>]\<rparr>"
    by (simp add: S3CM_iteration_eq S3CM_update_params_irrelevant set_grads_def u
        del: S3CM_run.simps of_nat_Suc)
  finally show ?case
    unfolding tw zeros_like_cong[OF ly] by (simp del: of_nat_Suc)
qed

text \<open>
  C3 as stated fails. With both prox operators the identity, learning rate \<open>0.1\<close> and
  gradient \<open>1\<close>, a single call of \<^verbatim>\<open>step\<close> on the freshly constructed optimizer leaves the
  parameter at \<open>1\<close>, where plain gradient descent gives \<open>0.9\<close>: the step commits
  \<^verbatim>\<open>iterate_2\<close>, which is computed before the gradient is used.
\<close>

theorem S3CM_first_step_leaves_parameter:
  "S3CM_init [([1], Some (Dense [1]))] None None (PyFloat (1 / 10)) ''none'' = Inr sample_s3cm_fresh
   \<and> map p_data (s3cm_params (snd (S3CM_step sample_s3cm_fresh None))) = [[1]]
   \<and> t_sub [1] (t_scale (1 / 10) [1]) = [9 / 10]"
  by (simp add: S3CM_init_def PGD_POSSIBLE_NORMALIZATIONS_def sample_s3cm_fresh_def register_def
      S3CM_step_def run_closure_def S3CM_update_def S3CM_initialize_def normalize_gradient_def
      normalize_defined_def wrap_prox_def py_index_def prox_identity_def squeeze_def unsqueeze0_def
      t_sub_def t_add_def t_scale_def t_div_def Let_def)

text \<open>
  C3, as the code has it. Let \<^verbatim>\<open>S3CM\<close> be constructed with \<^verbatim>\<open>prox1 = prox2 = None\<close> (both
  prox operators the identity) on one parameter \<open>x\<close>, with a nonzero learning rate, and
  let every backward pass leave the same gradient \<open>g\<close>, of the shape of \<open>x\<close>, on which
  the normalization is defined. The first call of \<^verbatim>\<open>step\<close> leaves the parameter at \<open>x\<close>
  and stores \<open>x - lr g'\<close> in \<^verbatim>\<open>iterate_1\<close>, where \<open>g'\<close> is the normalized gradient (\<open>g\<close>
  itself under \<^verbatim>\<open>'none'\<close>). Every later call is a step of plain gradient descent: it
  changes the parameter from \<open>x\<^sub>t\<close> to \<open>x\<^sub>t - lr g'\<close>.
\<close>

theorem S3CM_identity_prox_gradient_descent:
  assumes init: "S3CM_init [(x, g0)] None None (PyFloat lr) normalization = Inr self"
    and lr: "lr \<noteq> 0"
    and len: "length g = length x"
    and nd: "normalize_defined g normalization"
  shows "map p_data (s3cm_params (S3CM_run self [Some (Dense g)] (Suc 0))) = [x]
       \<and> map (map_option iterate_1 \<circ> p_state)
             (s3cm_params (S3CM_run self [Some (Dense g)] (Suc 0)))
           = [Some (t_sub x (t_scale lr (normalize_gradient g normalization)))]
       \<and> map p_data (s3cm_params (S3CM_run self [Some (Dense g)] (Suc (Suc n))))
           = map (\<lambda>x_t. t_sub x_t (t_scale lr (normalize_gradient g normalization)))
               (map p_data (s3cm_params (S3CM_run self [Some (Dense g)] (Suc n))))"
proof -
  let ?gh = "normalize_gradient g normalization"
  from init have self: "self = \<lparr>s3cm_lr = lr, s3cm_normalization = normalization,
       s3cm_prox1 = wrap_prox [None], s3cm_prox2 = wrap_prox [None],
       s3cm_params = [\<lparr>p_data = x, p_grad = g0, p_state = None\<rparr>]\<rparr>"
    by (simp add: S3CM_init_def register_def split: if_splits)
  have w: "s3cm_prox1 self = wrap_prox [None]" "s3cm_prox2 self = wrap_prox [None]"
    and ps: "s3cm_params self = [\<lparr>p_data = x, p_grad = g0, p_state = None\<rparr>]"
    and c: "s3cm_lr self = lr" "s3cm_normalization self = normalization"
    by (simp_all add: self)
  have nd': "normalize_defined g (s3cm_normalization self)" using nd by (simp add: c)
  note r = S3CM_run_identity[OF w ps len nd', unfolded c]
  have lg: "length ?gh = length x" using len by (simp add: length_normalize_gradient)
  have tw: "t_sub (t_sub x (t_scale (real k * lr) ?gh)) (t_scale lr ?gh)
              = t_sub x (t_scale (real (Suc k) * lr) ?gh)" for k
    unfolding t_sub_scale_twice[OF lg] by (simp add: algebra_simps)
  have first: "real 0 * lr = 0" "real (Suc 0) * lr = lr" by simp_all
  show ?thesis
    unfolding r by (simp add: tw first t_sub_scale_zero[OF lg] del: of_nat_Suc)
qed

theorem S3CM_identity_prox_gradient_descent_witness:
  "S3CM_init [([1], Some (Dense [1]))] None None (PyFloat (1 / 10)) ''none'' = Inr sample_s3cm_fresh
   \<and> map p_data (s3cm_params (S3CM_run sample_s3cm_fresh [Some (Dense [1])] (Suc 0))) = [[1]]
   \<and> map (map_option iterate_1 \<circ> p_state)
        (s3cm_params (S3CM_run sample_s3cm_fresh [Some (Dense [1])] (Suc 0))) = [Some [9 / 10]]
   \<and> map p_data (s3cm_params (S3CM_run sample_s3cm_fresh [Some (Dense [1])] (Suc (Suc 0))))
        = [[9 / 10]]"
proof -
  have i: "S3CM_init [([1], Some (Dense [1]))] None None (PyFloat (1 / 10)) ''none''
             = Inr sample_s3cm_fresh"
    by (simp add: S3CM_init_def PGD_POSSIBLE_NORMALIZATIONS_def sample_s3cm_fresh_def register_def)
  have d: "normalize_defined [1] ''none''" by (simp add: normalize_defined_def)
  have v: "t_sub [1] (t_scale (1 / 10) (normalize_gradient [1] ''none'')) = [9 / 10]"
    by (simp add: normalize_gradient_def t_sub_def t_scale_def)
  have t: "map p_data (s3cm_params (S3CM_run sample_s3cm_fresh [Some (Dense [1])] (Suc 0))) = [[1]]
       \<and> map (map_option iterate_1 \<circ> p_state)
             (s3cm_params (S3CM_run sample_s3cm_fresh [Some (Dense [1])] (Suc 0)))
           = [Some (t_sub [1] (t_scale (1 / 10) (normalize_gradient [1] ''none'')))]
       \<and> map p_data (s3cm_params (S3CM_run sample_s3cm_fresh [Some (Dense [1])] (Suc (Suc 0))))
           = map (\<lambda>x_t. t_sub x_t (t_scale (1 / 10) (normalize_gradient [1] ''none'')))
               (map p_data (s3cm_params (S3CM_run sample_s3cm_fresh [Some (Dense [1])] (Suc 0))))"
    by (rule S3CM_identity_prox_gradient_descent[OF i _ _ d]) simp_all
  then have a: "map p_data (s3cm_params (S3CM_run sample_s3cm_fresh [Some (Dense [1])] (Suc 0)))
                  = [[1]]"
    and b: "map (map_option iterate_1 \<circ> p_state)
             (s3cm_params (S3CM_run sample_s3cm_fresh [Some (Dense [1])] (Suc 0)))
           = [Some (t_sub [1] (t_scale (1 / 10) (normalize_gradient [1] ''none'')))]"
    and c: "map p_data (s3cm_params (S3CM_run sample_s3cm_fresh [Some (Dense [1])] (Suc (Suc 0))))
           = map (\<lambda>x_t. t_sub x_t (t_scale (1 / 10) (normalize_gradient [1] ''none'')))
               (map p_data (s3cm_params (S3CM_run sample_s3cm_fresh [Some (Dense [1])] (Suc 0))))"
    by blast+
  have c': "map p_data (s3cm_params (S3CM_run sample_s3cm_fresh [Some (Dense [1])] (Suc (Suc 0))))
              = [[9 / 10]]"
    unfolding c a by (simp only: list.map v)
  show ?thesis
    using i a b[unfolded v] c' by blast
qed


section \<open>Properties of the PGD step\<close>

lemma sum_squares_nonneg: "0 \<le> sum_list (map (\<lambda>v. v * v) (x :: real list))"
  by (induction x) simp_all

lemma sum_squares_eq_0_iff:
  "sum_list (map (\<lambda>v. v * v) (x :: real list)) = 0 \<longleftrightarrow> (\<forall>v\<in>set x. v = 0)"
proof (induction x)
  case Nil
  show ?case by simp
next
  case (Cons a x)
  have "a * a + sum_list (map (\<lambda>v. v * v) x) = 0
          \<longleftrightarrow> a * a = 0 \<and> sum_list (map (\<lambda>v. v * v) x) = 0"
    by (rule add_nonneg_eq_0_iff) (simp_all add: sum_squares_nonneg)
  with Cons.IH show ?case by simp
qed

lemma t_norm_nonneg: "0 \<le> t_norm x"
  by (simp add: t_norm_def sum_squares_nonneg)

lemma t_norm_eq_0_iff: "t_norm x = 0 \<longleftrightarrow> (\<forall>v\<in>set x. v = 0)"
  by (simp add: t_norm_def sum_squares_eq_0_iff)

lemma scaled_difference_zero_iff:
  "length a = length b \<Longrightarrow> s \<noteq> 0 \<Longrightarrow>
     (\<forall>v\<in>set (t_div (t_sub a b) s). v = 0) \<longleftrightarrow> b = a"
  by (induction a b rule: list_induct2) (auto simp: t_div_def t_sub_def)

lemma t_norm_single: "t_norm [v] = \<bar>v\<bar>"
  by (simp add: t_norm_def)

lemma PGD_update_success:
  assumes "PGD_update self idx (Dense grad) p = (None, idx', p')"
  shows "\<exists>m step_size w new_p.
      py_num (pgd_momentum self) = Inr m
    \<and> normalize_defined (ema_update (grad_estimate (momentum_state_of p)) grad m)
          (pgd_normalization self)
    \<and> schedule_step_size (pgd_lr self) (step (momentum_state_of p) + 1) = Inr step_size
    \<and> py_index (pgd_prox self) idx = Inr w
    \<and> w (t_sub (p_data p) (t_scale step_size
            (normalize_gradient (ema_update (grad_estimate (momentum_state_of p)) grad m)
               (pgd_normalization self)))) (Some 1) = Inr new_p
    \<and> idx' = idx + 1
    \<and> p' = p\<lparr>p_data := new_p,
              p_state := Some \<lparr>step = step (momentum_state_of p) + 1,
                 grad_estimate = ema_update (grad_estimate (momentum_state_of p)) grad m,
                 certificate = Some (t_norm (t_div (t_sub (p_data p) new_p) step_size))\<rparr>\<rparr>"
  using assms unfolding PGD_update_def
  by (auto simp: Let_def split: sum.splits if_splits)

text \<open>
  C6 as stated fails: a step of \<^verbatim>\<open>PGD\<close> with a positive step size does not always store
  a certificate that is at least \<open>0\<close>. Take the normalization \<^verbatim>\<open>'L2'\<close>, the learning rate
  \<open>0.1\<close>, the momentum \<open>0.9\<close> and one parameter \<open>1\<close> whose gradient is \<open>0\<close>. The gradient
  estimate stays \<open>0\<close>, \<^verbatim>\<open>normalize_gradient\<close> divides it by its norm \<open>0\<close>, and torch goes on
  with NaN: the candidate is NaN and so is the certificate, and \<^verbatim>\<open>NaN >= 0\<close> is false. In
  the model the step ends at the normalization with \<open>NonFinite\<close>, and the state of the
  parameter holds no certificate.
\<close>

theorem PGD_step_zero_gradient_stores_no_certificate:
  "PGD_init [([1], Some (Dense [0]))] None (PyFloat (1 / 10)) (PyFloat (9 / 10)) ''L2''
     = Inr sample_pgd_zero_gradient
   \<and> schedule_step_size (pgd_lr sample_pgd_zero_gradient) (0 + 1) = Inr (1 / 10)
   \<and> ema_update [0] [0] (9 / 10) = [0]
   \<and> t_norm [0] = 0
   \<and> PGD_step sample_pgd_zero_gradient None
       = (Some NonFinite, None,
          sample_pgd_zero_gradient\<lparr>pgd_params :=
            [\<lparr>p_data = [1], p_grad = Some (Dense [0]),
              p_state = Some \<lparr>step = 1, grad_estimate = [0], certificate = None\<rparr>\<rparr>]\<rparr>)"
  by (simp add: PGD_init_def PGD_POSSIBLE_NORMALIZATIONS_def register_def
        sample_pgd_zero_gradient_def PGD_step_def run_closure_def
        PGD_update_def momentum_state_of_def zeros_like_def
        ema_update_def normalize_defined_def schedule_step_size_def
        t_add_def t_sub_def t_scale_def t_norm_single Let_def)

text \<open>
  C6, as the code has it. Let the loop body of \<^verbatim>\<open>PGD.step\<close> come to a parameter with a
  gradient, a momentum that is a number, a positive step size, and a gradient estimate on
  which the normalization is defined; and let the wrapper \<open>w\<close>, which is \<^verbatim>\<open>self.prox[idx]\<close>,
  return a candidate of the parameter's shape on the point \<open>parameter - step_size g\<close>,
  where \<open>g\<close> is the normalized gradient estimate. Then the update completes, commits the
  candidate and stores the certificate \<open>c = \<parallel>(parameter - candidate) / step_size\<parallel>\<close>.
  This certificate is at least \<open>0\<close>, and it is \<open>0\<close> exactly when the wrapper returns the
  parameter itself on that point, that is when the parameter is a fixed point of the
  prox-gradient map \<open>x \<mapsto> self.prox[idx](x - step_size g, 1.0)\<close> of this step.
\<close>

theorem PGD_certificate_nonneg_zero_iff_fixed_point:
  assumes m: "py_num (pgd_momentum self) = Inr m"
    and s: "schedule_step_size (pgd_lr self) (step (momentum_state_of p) + 1) = Inr step_size"
    and pos: "0 < step_size"
    and nd: "normalize_defined (ema_update (grad_estimate (momentum_state_of p)) grad m)
               (pgd_normalization self)"
    and w: "py_index (pgd_prox self) idx = Inr w"
    and cand: "w (t_sub (p_data p) (t_scale step_size
                 (normalize_gradient (ema_update (grad_estimate (momentum_state_of p)) grad m)
                    (pgd_normalization self)))) (Some 1) = Inr candidate"
    and shape: "length candidate = length (p_data p)"
  shows "\<exists>c. PGD_update self idx (Dense grad) p
              = (None, idx + 1,
                 p\<lparr>p_data := candidate,
                   p_state := Some \<lparr>step = step (momentum_state_of p) + 1,
                     grad_estimate = ema_update (grad_estimate (momentum_state_of p)) grad m,
                     certificate = Some c\<rparr>\<rparr>)
            \<and> c = t_norm (t_div (t_sub (p_data p) candidate) step_size)
            \<and> 0 \<le> c
            \<and> (c = 0 \<longleftrightarrow>
                 w (t_sub (p_data p) (t_scale step_size
                     (normalize_gradient (ema_update (grad_estimate (momentum_state_of p)) grad m)
                        (pgd_normalization self)))) (Some 1) = Inr (p_data p))"
proof -
  let ?c = "t_norm (t_div (t_sub (p_data p) candidate) step_size)"
  have u: "PGD_update self idx (Dense grad) p
              = (None, idx + 1,
                 p\<lparr>p_data := candidate,
                   p_state := Some \<lparr>step = step (momentum_state_of p) + 1,
                     grad_estimate = ema_update (grad_estimate (momentum_state_of p)) grad m,
                     certificate = Some ?c\<rparr>\<rparr>)"
    unfolding PGD_update_def by (simp add: Let_def m s nd w cand)
  have ne: "step_size \<noteq> 0" using pos by simp
  have len: "length (p_data p) = length candidate" using shape by simp
  have z: "?c = 0 \<longleftrightarrow> candidate = p_data p"
    using scaled_difference_zero_iff[OF len ne] by (simp add: t_norm_eq_0_iff)
  have f: "w (t_sub (p_data p) (t_scale step_size
                     (normalize_gradient (ema_update (grad_estimate (momentum_state_of p)) grad m)
                        (pgd_normalization self)))) (Some 1) = Inr (p_data p)
             \<longleftrightarrow> candidate = p_data p"
    unfolding cand by simp
  have n: "0 \<le> ?c" by (rule t_norm_nonneg)
  show ?thesis
    unfolding f by (rule exI[of _ ?c]) (simp only: u z n simp_thms)
qed

theorem PGD_certificate_nonneg_zero_iff_fixed_point_witness:
  "PGD_init [([1], Some (Dense [- 1]))] (Some [Some box_prox]) (PyFloat (1 / 10))
      (PyFloat (9 / 10)) ''L2'' = Inr sample_pgd_box
   \<and> PGD_update sample_pgd_box 0 (Dense [- 1])
        \<lparr>p_data = [1], p_grad = Some (Dense [- 1]), p_state = None\<rparr>
     = (None, 1, \<lparr>p_data = [1], p_grad = Some (Dense [- 1]),
          p_state = Some \<lparr>step = 1, grad_estimate = [- 1 / 10], certificate = Some 0\<rparr>\<rparr>)
   \<and> squeeze (box_prox (unsqueeze0 (t_sub [1] (t_scale (1 / 10) [- 1]))) None) = [1]
   \<and> PGD_update sample_pgd_box 0 (Dense [- 1])
        \<lparr>p_data = [1 / 2], p_grad = Some (Dense [- 1]), p_state = None\<rparr>
     = (None, 1, \<lparr>p_data = [3 / 5], p_grad = Some (Dense [- 1]),
          p_state = Some \<lparr>step = 1, grad_estimate = [- 1 / 10], certificate = Some 1\<rparr>\<rparr>)
   \<and> squeeze (box_prox (unsqueeze0 (t_sub [1 / 2] (t_scale (1 / 10) [- 1]))) None) = [3 / 5]"
proof -
  let ?w = "\<lambda>(x :: tensor) (s :: real option).
              (Inr (squeeze (box_prox (unsqueeze0 x) None)) :: py_error + tensor)"
  let ?p = "\<lparr>p_data = [1], p_grad = Some (Dense [- 1]),
             p_state = (None :: momentum_state option)\<rparr>"
  let ?q = "\<lparr>p_data = [1 / 2], p_grad = Some (Dense [- 1]),
             p_state = (None :: momentum_state option)\<rparr>"
  have i: "PGD_init [([1], Some (Dense [- 1]))] (Some [Some box_prox]) (PyFloat (1 / 10))
      (PyFloat (9 / 10)) ''L2'' = Inr sample_pgd_box"
    by (simp add: PGD_init_def PGD_POSSIBLE_NORMALIZATIONS_def register_def sample_pgd_box_def)
  have m: "py_num (pgd_momentum sample_pgd_box) = Inr (9 / 10)"
    by (simp add: sample_pgd_box_def)
  have s: "schedule_step_size (pgd_lr sample_pgd_box) (step (momentum_state_of r) + 1)
             = Inr (1 / 10)" for r
    by (simp add: schedule_step_size_def sample_pgd_box_def)
  have e: "ema_update (grad_estimate (momentum_state_of
              \<lparr>p_data = [v], p_grad = Some (Dense [- 1]), p_state = None\<rparr>)) [- 1] (9 / 10)
             = [- (1 / 10)]" for v :: real
    by (simp add: ema_update_def momentum_state_of_def zeros_like_def
        t_add_def t_sub_def t_scale_def)
  have st: "step (momentum_state_of
              \<lparr>p_data = [v], p_grad = Some (Dense [- 1]), p_state = None\<rparr>) = 0" for v :: real
    by (simp add: momentum_state_of_def)
  have nd: "normalize_defined [- (1 / 10)] (pgd_normalization sample_pgd_box)"
    by (simp add: normalize_defined_def sample_pgd_box_def t_norm_single)
  have g: "normalize_gradient [- (1 / 10)] (pgd_normalization sample_pgd_box) = [- 1]"
    by (simp add: normalize_gradient_def sample_pgd_box_def t_norm_single t_div_def)
  have w: "py_index (pgd_prox sample_pgd_box) 0 = Inr ?w"
    by (simp add: py_index_def sample_pgd_box_def PGD_wrap_def)
  have c1: "squeeze (box_prox (unsqueeze0 (t_sub [1] (t_scale (1 / 10) [- 1]))) None) = [1]"
    by (simp add: squeeze_def box_prox_def unsqueeze0_def t_sub_def t_scale_def)
  have c2: "squeeze (box_prox (unsqueeze0 (t_sub [1 / 2] (t_scale (1 / 10) [- 1]))) None)
              = [3 / 5]"
    by (simp add: squeeze_def box_prox_def unsqueeze0_def t_sub_def t_scale_def)
  have "\<exists>c. PGD_update sample_pgd_box 0 (Dense [- 1]) ?p
              = (None, 0 + 1,
                 ?p\<lparr>p_data := [1],
                   p_state := Some \<lparr>step = step (momentum_state_of ?p) + 1,
                     grad_estimate = ema_update (grad_estimate (momentum_state_of ?p)) [- 1] (9 / 10),
                     certificate = Some c\<rparr>\<rparr>)
            \<and> c = t_norm (t_div (t_sub (p_data ?p) [1]) (1 / 10))
            \<and> 0 \<le> c
            \<and> (c = 0 \<longleftrightarrow>
                 ?w (t_sub (p_data ?p) (t_scale (1 / 10)
                     (normalize_gradient (ema_update (grad_estimate (momentum_state_of ?p)) [- 1] (9 / 10))
                        (pgd_normalization sample_pgd_box)))) (Some 1) = Inr (p_data ?p))"
    by (rule PGD_certificate_nonneg_zero_iff_fixed_point[OF m s _ _ w])
       (simp_all add: e nd g c1)
  then have a: "PGD_update sample_pgd_box 0 (Dense [- 1]) ?p
     = (None, 1, \<lparr>p_data = [1], p_grad = Some (Dense [- 1]),
          p_state = Some \<lparr>step = 1, grad_estimate = [- 1 / 10], certificate = Some 0\<rparr>\<rparr>)"
  proof (elim exE conjE)
    fix c :: real
    assume u: "PGD_update sample_pgd_box 0 (Dense [- 1]) ?p
              = (None, 0 + 1,
                 ?p\<lparr>p_data := [1],
                   p_state := Some \<lparr>step = step (momentum_state_of ?p) + 1,
                     grad_estimate = ema_update (grad_estimate (momentum_state_of ?p)) [- 1] (9 / 10),
                     certificate = Some c\<rparr>\<rparr>)"
      and cv: "c = t_norm (t_div (t_sub (p_data ?p) [1]) (1 / 10))"
    from cv have "c = 0" by (simp add: t_sub_def t_div_def t_norm_single)
    with u show ?thesis by (simp add: e st)
  qed
  have "\<exists>c. PGD_update sample_pgd_box 0 (Dense [- 1]) ?q
              = (None, 0 + 1,
                 ?q\<lparr>p_data := [3 / 5],
                   p_state := Some \<lparr>step = step (momentum_state_of ?q) + 1,
                     grad_estimate = ema_update (grad_estimate (momentum_state_of ?q)) [- 1] (9 / 10),
                     certificate = Some c\<rparr>\<rparr>)
            \<and> c = t_norm (t_div (t_sub (p_data ?q) [3 / 5]) (1 / 10))
            \<and> 0 \<le> c
            \<and> (c = 0 \<longleftrightarrow>
                 ?w (t_sub (p_data ?q) (t_scale (1 / 10)
                     (normalize_gradient (ema_update (grad_estimate (momentum_state_of ?q)) [- 1] (9 / 10))
                        (pgd_normalization sample_pgd_box)))) (Some 1) = Inr (p_data ?q))"
    by (rule PGD_certificate_nonneg_zero_iff_fixed_point[OF m s _ _ w])
       (simp_all add: e nd g c2)
  then have b: "PGD_update sample_pgd_box 0 (Dense [- 1]) ?q
     = (None, 1, \<lparr>p_data = [3 / 5], p_grad = Some (Dense [- 1]),
          p_state = Some \<lparr>step = 1, grad_estimate = [- 1 / 10], certificate = Some 1\<rparr>\<rparr>)"
  proof (elim exE conjE)
    fix c :: real
    assume u: "PGD_update sample_pgd_box 0 (Dense [- 1]) ?q
              = (None, 0 + 1,
                 ?q\<lparr>p_data := [3 / 5],
                   p_state := Some \<lparr>step = step (momentum_state_of ?q) + 1,
                     grad_estimate = ema_update (grad_estimate (momentum_state_of ?q)) [- 1] (9 / 10),
                     certificate = Some c\<rparr>\<rparr>)"
      and cv: "c = t_norm (t_div (t_sub (p_data ?q) [3 / 5]) (1 / 10))"
    from cv have "c = 1" by (simp add: t_sub_def t_div_def t_norm_single)
    with u show ?thesis by (simp add: e st)
  qed
  from i a c1 b c2 show ?thesis by (intro conjI)
qed

text \<open>
  C2 fails on the code. With two different oracles supplied for two parameters that both
  have gradients, the step on the first parameter invokes the oracle supplied for the
  second one: the projection onto \<open>{0}\<close> at position \<open>0\<close> would send the parameter to
  \<open>0\<close>, and the step leaves it at \<open>1\<close>. With the first parameter skipped for want of a
  gradient, the second parameter is updated through the wrapper of position \<open>0\<close>, since
  \<^verbatim>\<open>idx\<close> only advances after an update: the projection supplied at position \<open>1\<close> is not
  invoked either.
\<close>

theorem PGD_step_calls_misaligned_oracle:
  "PGD_init [([1], Some (Dense [0])), ([1], Some (Dense [0]))]
      (Some [Some zero_prox, Some prox_identity]) (PyFloat (1 / 10)) (PyFloat (9 / 10)) ''none''
     = Inr sample_pgd_two
   \<and> map p_data (pgd_params (snd (snd (PGD_step sample_pgd_two None)))) = [[1], [1]]
   \<and> PGD_init [([1], None), ([1], Some (Dense [0]))]
      (Some [None, Some zero_prox]) (PyFloat (1 / 10)) (PyFloat (9 / 10)) ''none''
     = Inr sample_pgd_skip
   \<and> map p_data (pgd_params (snd (snd (PGD_step sample_pgd_skip None)))) = [[1], [1]]
   \<and> squeeze (zero_prox (unsqueeze0 (t_sub [1] (t_scale (1 / 10) [0]))) None) = [0]"
  by (simp add: PGD_init_def PGD_POSSIBLE_NORMALIZATIONS_def register_def sample_pgd_two_def
        sample_pgd_skip_def PGD_step_def run_closure_def
        PGD_update_def momentum_state_of_def zeros_like_def zero_prox_def prox_identity_def
        ema_update_def normalize_gradient_def normalize_defined_def schedule_step_size_def
        py_index_def PGD_wrap_def squeeze_def unsqueeze0_def
        t_add_def t_sub_def t_scale_def t_div_def t_norm_single Let_def)

text \<open>
  C1 as stated fails. Take one parameter \<open>2\<close> with gradient \<open>1\<close>, the learning rate
  \<open>0.25\<close>, no momentum, and a prox oracle that scales the point by the step size it is
  given and halves it when it is given none. The point of the gradient step is \<open>1.75\<close>, and
  the claim's candidate is \<open>prox(1.75, 0.25) = 0.4375\<close>. The step commits \<open>0.875\<close>, the
  half of the point: the step size \<open>0.25\<close> of the gradient step has not reached the
  oracle. \<^verbatim>\<open>PGD.step\<close> puts the literal \<open>1.\<close> where the claim has the step size, and with
  \<open>1.0\<close> the oracle answers \<open>1.75\<close>, which is not the claim's candidate either.
\<close>

theorem PGD_step_drops_step_size:
  "PGD_init [([2], Some (Dense [1]))] (Some [Some halving_prox]) (PyFloat (1 / 4)) (PyFloat 0)
      ''none'' = Inr sample_pgd_halving
   \<and> t_sub [2] (t_scale (1 / 4) [1]) = [7 / 4]
   \<and> map p_data (pgd_params (snd (snd (PGD_step sample_pgd_halving None)))) = [[7 / 8]]
   \<and> squeeze (halving_prox (unsqueeze0 [7 / 4]) (Some (1 / 4))) = [7 / 16]
   \<and> squeeze (halving_prox (unsqueeze0 [7 / 4]) (Some 1)) = [7 / 4]"
  by (simp add: PGD_init_def PGD_POSSIBLE_NORMALIZATIONS_def register_def sample_pgd_halving_def
        PGD_step_def run_closure_def
        PGD_update_def momentum_state_of_def zeros_like_def halving_prox_def
        ema_update_def normalize_gradient_def normalize_defined_def schedule_step_size_def
        py_index_def PGD_wrap_def squeeze_def unsqueeze0_def
        t_add_def t_sub_def t_scale_def t_div_def t_norm_single Let_def)

text \<open>
  C1, as the code has it. When the loop body of \<^verbatim>\<open>PGD.step\<close> updates a parameter, the
  committed candidate is \<^verbatim>\<open>self.prox[idx]\<close> applied to the point \<open>parameter - step_size g\<close>
  and to the constant \<open>1.0\<close>, not to the step size: \<open>g\<close> is the normalized gradient
  estimate, and \<open>step_size\<close> is the constant \<^verbatim>\<open>lr\<close>, or \<open>1 / (step + 1)\<close> under the
  sublinear schedule, with the step count that this call has already incremented. The
  learning rate is a float or \<^verbatim>\<open>'sublinear'\<close>, as the constructor requires.
\<close>

theorem PGD_candidate_from_prox_wrapper:
  assumes lr: "is_float (pgd_lr self) \<or> pgd_lr self = PyStr ''sublinear''"
    and upd: "PGD_update self idx (Dense grad) p = (None, idx', p')"
  shows "\<exists>m step_size w.
       py_num (pgd_momentum self) = Inr m
     \<and> (pgd_lr self = PyStr ''sublinear''
            \<and> step_size = 1 / (step (momentum_state_of p) + 1 + 1)
          \<or> pgd_lr self = PyFloat step_size)
     \<and> py_index (pgd_prox self) idx = Inr w
     \<and> w (t_sub (p_data p) (t_scale step_size
            (normalize_gradient (ema_update (grad_estimate (momentum_state_of p)) grad m)
               (pgd_normalization self)))) (Some 1) = Inr (p_data p')"
  using PGD_update_success[OF upd]
proof (elim exE conjE)
  fix m s :: real and w :: prox_wrapper and new_p :: tensor
  assume m: "py_num (pgd_momentum self) = Inr m"
    and s: "schedule_step_size (pgd_lr self) (step (momentum_state_of p) + 1) = Inr s"
    and w: "py_index (pgd_prox self) idx = Inr w"
    and c: "w (t_sub (p_data p) (t_scale s
            (normalize_gradient (ema_update (grad_estimate (momentum_state_of p)) grad m)
               (pgd_normalization self)))) (Some 1) = Inr new_p"
    and p': "p' = p\<lparr>p_data := new_p,
              p_state := Some \<lparr>step = step (momentum_state_of p) + 1,
                 grad_estimate = ema_update (grad_estimate (momentum_state_of p)) grad m,
                 certificate = Some (t_norm (t_div (t_sub (p_data p) new_p) s))\<rparr>\<rparr>"
  have sched: "pgd_lr self = PyStr ''sublinear'' \<and> s = 1 / (step (momentum_state_of p) + 1 + 1)
          \<or> pgd_lr self = PyFloat s"
  proof (cases "pgd_lr self = PyStr ''sublinear''")
    case True
    with s show ?thesis by (simp add: schedule_step_size_def)
  next
    case False
    with lr obtain l where l: "pgd_lr self = PyFloat l" by (cases "pgd_lr self") simp_all
    with s have "s = l" by (simp add: schedule_step_size_def)
    with l show ?thesis by simp
  qed
  have d: "p_data p' = new_p" by (simp add: p')
  show ?thesis
  proof (intro exI conjI)
    show "py_num (pgd_momentum self) = Inr m" by (rule m)
    show "pgd_lr self = PyStr ''sublinear'' \<and> s = 1 / (step (momentum_state_of p) + 1 + 1)
          \<or> pgd_lr self = PyFloat s" by (rule sched)
    show "py_index (pgd_prox self) idx = Inr w" by (rule w)
    show "w (t_sub (p_data p) (t_scale s
            (normalize_gradient (ema_update (grad_estimate (momentum_state_of p)) grad m)
               (pgd_normalization self)))) (Some 1) = Inr (p_data p')"
      using c unfolding d .
  qed
qed

theorem PGD_candidate_from_prox_wrapper_witness:
  "PGD_init [([2], Some (Dense [1]))] (Some [Some halving_prox]) (PyFloat (1 / 4)) (PyFloat 0)
      ''none'' = Inr sample_pgd_halving
   \<and> PGD_update sample_pgd_halving 0 (Dense [1])
        \<lparr>p_data = [2], p_grad = Some (Dense [1]), p_state = None\<rparr>
     = (None, 1, \<lparr>p_data = [7 / 8], p_grad = Some (Dense [1]),
          p_state = Some \<lparr>step = 1, grad_estimate = [1], certificate = Some (9 / 2)\<rparr>\<rparr>)
   \<and> (\<exists>w. py_index (pgd_prox sample_pgd_halving) 0 = Inr w
          \<and> w (t_sub [2] (t_scale (1 / 4) [1])) (Some 1) = Inr [7 / 8])
   \<and> PGD_init [([3], Some (Dense [1]))] (Some [Some halving_prox]) (PyStr ''sublinear'')
      (PyFloat 0) ''none'' = Inr sample_pgd_sublinear
   \<and> PGD_update sample_pgd_sublinear 0 (Dense [1])
        \<lparr>p_data = [3], p_grad = Some (Dense [1]), p_state = None\<rparr>
     = (None, 1, \<lparr>p_data = [5 / 4], p_grad = Some (Dense [1]),
          p_state = Some \<lparr>step = 1, grad_estimate = [1], certificate = Some (7 / 2)\<rparr>\<rparr>)
   \<and> (\<exists>w. py_index (pgd_prox sample_pgd_sublinear) 0 = Inr w
          \<and> w (t_sub [3] (t_scale (1 / 2) [1])) (Some 1) = Inr [5 / 4])"
proof -
  let ?p = "\<lparr>p_data = [2], p_grad = Some (Dense [1]), p_state = (None :: momentum_state option)\<rparr>"
  let ?p' = "\<lparr>p_data = [7 / 8], p_grad = Some (Dense [1]),
          p_state = Some \<lparr>step = 1, grad_estimate = [1], certificate = Some (9 / 2)\<rparr>\<rparr>"
  let ?q = "\<lparr>p_data = [3], p_grad = Some (Dense [1]), p_state = (None :: momentum_state option)\<rparr>"
  let ?q' = "\<lparr>p_data = [5 / 4], p_grad = Some (Dense [1]),
          p_state = Some \<lparr>step = 1, grad_estimate = [1], certificate = Some (7 / 2)\<rparr>\<rparr>"
  have i: "PGD_init [([2], Some (Dense [1]))] (Some [Some halving_prox]) (PyFloat (1 / 4))
            (PyFloat 0) ''none'' = Inr sample_pgd_halving"
    by (simp add: PGD_init_def PGD_POSSIBLE_NORMALIZATIONS_def register_def
        sample_pgd_halving_def)
  have j: "PGD_init [([3], Some (Dense [1]))] (Some [Some halving_prox]) (PyStr ''sublinear'')
            (PyFloat 0) ''none'' = Inr sample_pgd_sublinear"
    by (simp add: PGD_init_def PGD_POSSIBLE_NORMALIZATIONS_def register_def
        sample_pgd_sublinear_def)
  have u: "PGD_update sample_pgd_halving 0 (Dense [1]) ?p = (None, 1, ?p')"
    by (simp add: PGD_update_def sample_pgd_halving_def momentum_state_of_def zeros_like_def
        ema_update_def normalize_gradient_def normalize_defined_def schedule_step_size_def
        py_index_def PGD_wrap_def halving_prox_def squeeze_def unsqueeze0_def
        t_add_def t_sub_def t_scale_def t_div_def t_norm_single Let_def)
  have v: "PGD_update sample_pgd_sublinear 0 (Dense [1]) ?q = (None, 1, ?q')"
    by (simp add: PGD_update_def sample_pgd_sublinear_def momentum_state_of_def zeros_like_def
        ema_update_def normalize_gradient_def normalize_defined_def schedule_step_size_def
        py_index_def PGD_wrap_def halving_prox_def squeeze_def unsqueeze0_def
        t_add_def t_sub_def t_scale_def t_div_def t_norm_single Let_def)
  have lu: "is_float (pgd_lr sample_pgd_halving) \<or> pgd_lr sample_pgd_halving = PyStr ''sublinear''"
    by (simp add: sample_pgd_halving_def)
  have lv: "is_float (pgd_lr sample_pgd_sublinear)
              \<or> pgd_lr sample_pgd_sublinear = PyStr ''sublinear''"
    by (simp add: sample_pgd_sublinear_def)
  have g: "normalize_gradient (ema_update (grad_estimate (momentum_state_of
              \<lparr>p_data = [x], p_grad = Some (Dense [1]), p_state = None\<rparr>)) [1] 0) ''none'' = [1]"
    for x :: real
    by (simp add: normalize_gradient_def ema_update_def momentum_state_of_def zeros_like_def
        t_add_def t_sub_def t_scale_def)
  have a: "\<exists>w. py_index (pgd_prox sample_pgd_halving) 0 = Inr w
          \<and> w (t_sub [2] (t_scale (1 / 4) [1])) (Some 1) = Inr [7 / 8]"
    using PGD_candidate_from_prox_wrapper[OF lu u]
  proof (elim exE conjE)
    fix m step_size :: real and w :: prox_wrapper
    assume m: "py_num (pgd_momentum sample_pgd_halving) = Inr m"
      and s: "pgd_lr sample_pgd_halving = PyStr ''sublinear''
                \<and> step_size = 1 / (step (momentum_state_of ?p) + 1 + 1)
              \<or> pgd_lr sample_pgd_halving = PyFloat step_size"
      and w: "py_index (pgd_prox sample_pgd_halving) 0 = Inr w"
      and c: "w (t_sub (p_data ?p) (t_scale step_size
            (normalize_gradient (ema_update (grad_estimate (momentum_state_of ?p)) [1] m)
               (pgd_normalization sample_pgd_halving)))) (Some 1) = Inr (p_data ?p')"
    from m have m0: "m = 0" by (simp add: sample_pgd_halving_def)
    from s have s0: "step_size = 1 / 4" by (simp add: sample_pgd_halving_def)
    have n: "pgd_normalization sample_pgd_halving = ''none''"
      by (simp add: sample_pgd_halving_def)
    from c have c': "w (t_sub [2] (t_scale (1 / 4) [1])) (Some 1) = Inr [7 / 8]"
      unfolding m0 s0 n g by simp
    show ?thesis
      by (rule exI[of _ w]) (simp add: w c')
  qed
  have b: "\<exists>w. py_index (pgd_prox sample_pgd_sublinear) 0 = Inr w
          \<and> w (t_sub [3] (t_scale (1 / 2) [1])) (Some 1) = Inr [5 / 4]"
    using PGD_candidate_from_prox_wrapper[OF lv v]
  proof (elim exE conjE)
    fix m step_size :: real and w :: prox_wrapper
    assume m: "py_num (pgd_momentum sample_pgd_sublinear) = Inr m"
      and s: "pgd_lr sample_pgd_sublinear = PyStr ''sublinear''
                \<and> step_size = 1 / (step (momentum_state_of ?q) + 1 + 1)
              \<or> pgd_lr sample_pgd_sublinear = PyFloat step_size"
      and w: "py_index (pgd_prox sample_pgd_sublinear) 0 = Inr w"
      and c: "w (t_sub (p_data ?q) (t_scale step_size
            (normalize_gradient (ema_update (grad_estimate (momentum_state_of ?q)) [1] m)
               (pgd_normalization sample_pgd_sublinear)))) (Some 1) = Inr (p_data ?q')"
    from m have m0: "m = 0" by (simp add: sample_pgd_sublinear_def)
    from s have s0: "step_size = 1 / 2"
      by (simp add: sample_pgd_sublinear_def momentum_state_of_def)
    have n: "pgd_normalization sample_pgd_sublinear = ''none''"
      by (simp add: sample_pgd_sublinear_def)
    from c have c': "w (t_sub [3] (t_scale (1 / 2) [1])) (Some 1) = Inr [5 / 4]"
      unfolding m0 s0 n g by simp
    show ?thesis
      by (rule exI[of _ w]) (simp add: w c')
  qed
  from i u a j v b show ?thesis by (intro conjI)
qed

end
